theory Spec2Isabelle
  imports Main "HOL-Library.AList" "HOL-Library.Sublist"
begin

section \<open>Python values used by qcompiler.py\<close>

text \<open>
  Exceptions are values.  A call that raises returns its exception; the constructors are the
  exception classes that \<^verbatim>\<open>qcompiler.py\<close> and the library calls it makes can raise.
  \<open>AttributeError\<close> carries the name of the missing attribute, \<open>OSError\<close> (an \<open>OSError\<close>
  that is of none of its subclasses) the name of its \<open>errno\<close>, \<open>CompilerError\<close> and
  \<open>ValueError\<close> carry their message, \<open>ShutilError\<close> is \<open>shutil.Error\<close>, and
  \<open>BackendError\<close> stands for whatever an external collaborator (mypy, zipapp, PyInstaller,
  shlex) raises.
\<close>

datatype error =
    AttributeError string
  | FileNotFoundError
  | NotADirectoryError
  | IsADirectoryError
  | FileExistsError
  | DirectoryNotEmpty
  | PermissionError
  | OSError string
  | RecursionError
  | IndexError
  | ValueError string
  | CompilerError string
  | ShutilError string
  | BackendError string

subsection \<open>Strings\<close>

text \<open>Python truthiness of a \<open>str\<close>, of an optional \<open>str\<close> and of an optional list.\<close>

definition truthy :: "string \<Rightarrow> bool" where
  "truthy s = (s \<noteq> [])"

definition truthy_opt :: "string option \<Rightarrow> bool" where
  "truthy_opt v = (case v of None \<Rightarrow> False | Some s \<Rightarrow> s \<noteq> [])"

text \<open>\<open>if xs: for x in xs: ...\<close> over an argument whose default is \<open>None\<close>: the elements the
  loop visits.\<close>

definition elements :: "'a list option \<Rightarrow> 'a list" where
  "elements v = (case v of None \<Rightarrow> [] | Some xs \<Rightarrow> xs)"

text \<open>\<open>s.replace("\\", "/")\<close>.\<close>

definition backslash :: char where
  "backslash = CHR 0x5C"

definition replace_backslash :: "string \<Rightarrow> string" where
  "replace_backslash s = map (\<lambda>c. if c = backslash then CHR ''/'' else c) s"

text \<open>\<open>s.upper()\<close> on the ASCII letters.\<close>

definition upper_char :: "char \<Rightarrow> char" where
  "upper_char c =
     (let n = (of_char c :: nat) in if 97 \<le> n \<and> n \<le> 122 then char_of (n - 32) else c)"

definition upper :: "string \<Rightarrow> string" where
  "upper s = map upper_char s"

text \<open>\<open>"\"%s\"" % s\<close>: the string between double quotes.\<close>

definition quoted :: "string \<Rightarrow> string" where
  "quoted s = CHR 0x22 # s @ [CHR 0x22]"

text \<open>The string between single quotes, as an f-string writes \<open>'{s}'\<close>.\<close>

definition squoted :: "string \<Rightarrow> string" where
  "squoted s = CHR 0x27 # s @ [CHR 0x27]"

text \<open>\<open>s.endswith(t)\<close>.\<close>

definition endswith :: "string \<Rightarrow> string \<Rightarrow> bool" where
  "endswith s t = suffix t s"

subsection \<open>Paths as strings (posixpath)\<close>

text \<open>
  The path functions are those of \<^verbatim>\<open>posixpath\<close>: the separator is \<open>/\<close>.
  \<open>os.path.join(a, b)\<close>: an absolute \<open>b\<close> replaces \<open>a\<close>; otherwise \<open>b\<close> is appended, with
  a separator unless \<open>a\<close> is empty or ends with one.
\<close>

definition os_path_join :: "string \<Rightarrow> string \<Rightarrow> string" where
  "os_path_join a b =
     (if b \<noteq> [] \<and> hd b = CHR ''/'' then b
      else if a = [] \<or> last a = CHR ''/'' then a @ b
      else a @ ''/'' @ b)"

text \<open>\<open>os.path.join(a, b, c)\<close>.\<close>

definition os_path_join3 :: "string \<Rightarrow> string \<Rightarrow> string \<Rightarrow> string" where
  "os_path_join3 a b c = os_path_join (os_path_join a b) c"

text \<open>\<open>QCompilerEXE.join_path(path, *paths)\<close> with one further path.\<close>

definition join_path :: "string \<Rightarrow> string \<Rightarrow> string" where
  "join_path path p = replace_backslash (os_path_join path p)"

text \<open>\<open>s.rstrip("/")\<close>.\<close>

definition rstrip_sep :: "string \<Rightarrow> string" where
  "rstrip_sep s = rev (dropWhile (\<lambda>c. c = CHR ''/'') (rev s))"

text \<open>
  \<open>os.path.split(p)\<close>: the part up to and including the last separator, and the rest; the
  head loses its trailing separators unless it consists of separators only.
\<close>

definition os_path_split :: "string \<Rightarrow> string \<times> string" where
  "os_path_split p =
     (let tail = rev (takeWhile (\<lambda>c. c \<noteq> CHR ''/'') (rev p));
          head = take (length p - length tail) p
      in (if head \<noteq> [] \<and> \<not> list_all (\<lambda>c. c = CHR ''/'') head then rstrip_sep head else head,
          tail))"

text \<open>
  \<open>os.path.splitext(p)\<close>: the extension starts at the last dot of the last component,
  unless that component has only dots before it.
\<close>

definition os_path_splitext :: "string \<Rightarrow> string \<times> string" where
  "os_path_splitext p =
     (let name = rev (takeWhile (\<lambda>c. c \<noteq> CHR ''/'') (rev p));
          ext = rev (takeWhile (\<lambda>c. c \<noteq> CHR ''.'') (rev name));
          stem = take (length name - length ext - 1) name
      in if CHR ''.'' \<in> set name \<and> \<not> list_all (\<lambda>c. c = CHR ''.'') stem
         then (take (length p - length ext - 1) p, CHR ''.'' # ext)
         else (p, []))"

section \<open>The file system\<close>

text \<open>
  A file system is a tree: a regular file holds its bytes, a directory holds its entries in
  the order \<open>os.listdir\<close> reports them.  There are no symbolic links and no permissions.
  The world a program runs in is the tree, the current working directory (the names from
  the root down to it) and the lines written to \<open>sys.stderr\<close>; output on \<open>sys.stdout\<close> is
  not modelled.
\<close>

datatype node = File string | Dir "(string \<times> node) list"

record world =
  root :: node
  cwd :: "string list"
  stderr :: "string list"

text \<open>The node at a list of names below a node.\<close>

fun lookup :: "node \<Rightarrow> string list \<Rightarrow> node option" where
  "lookup n [] = Some n"
| "lookup (File c) (x # xs) = None"
| "lookup (Dir es) (x # xs) = (case map_of es x of None \<Rightarrow> None | Some n \<Rightarrow> lookup n xs)"

text \<open>
  \<open>modify q f n\<close> replaces the entry at \<open>q\<close> below \<open>n\<close> by what \<open>f\<close> makes of it (\<open>None\<close>: no
  entry).  Nothing changes when the directory that would hold the entry does not exist; the
  root itself is never replaced.
\<close>

fun modify :: "string list \<Rightarrow> (node option \<Rightarrow> node option) \<Rightarrow> node \<Rightarrow> node" where
  "modify [] f n = n"
| "modify (x # xs) f (File c) = File c"
| "modify [x] f (Dir es) =
     Dir (case f (map_of es x) of None \<Rightarrow> AList.delete x es | Some n \<Rightarrow> AList.update x n es)"
| "modify (x # y # ys) f (Dir es) =
     (case map_of es x of
        None \<Rightarrow> Dir es
      | Some c \<Rightarrow> Dir (AList.update x (modify (y # ys) f c) es))"

definition remove_at :: "string list \<Rightarrow> node \<Rightarrow> node" where
  "remove_at q n = modify q (\<lambda>old. None) n"

definition put_at :: "string list \<Rightarrow> node \<Rightarrow> node \<Rightarrow> node" where
  "put_at q new n = modify q (\<lambda>old. Some new) n"


text \<open>
  The names a directory can hold: not empty, not \<open>.\<close> or \<open>..\<close>, and without a separator.
\<close>

definition valid_name :: "string \<Rightarrow> bool" where
  "valid_name name =
     (name \<noteq> [] \<and> name \<noteq> ''.'' \<and> name \<noteq> ''..'' \<and> CHR ''/'' \<notin> set name)"


text \<open>
  A name may hold a backslash, which \<open>QCompilerEXE.join_path\<close> rewrites to a separator.
  A plain name holds none, and in a plain tree every name is plain.
\<close>

definition plain_name :: "string \<Rightarrow> bool" where
  "plain_name name = (valid_name name \<and> backslash \<notin> set name)"


subsection \<open>Path resolution\<close>

text \<open>\<open>p.split("/")\<close>.\<close>

fun split_sep :: "string \<Rightarrow> string list" where
  "split_sep [] = [[]]"
| "split_sep (c # cs) =
     (if c = CHR ''/'' then [] # split_sep cs
      else (case split_sep cs of [] \<Rightarrow> [[c]] | x # xs \<Rightarrow> (c # x) # xs))"

text \<open>\<open>"/".join(comps)\<close>.\<close>

fun join_sep :: "string list \<Rightarrow> string" where
  "join_sep [] = []"
| "join_sep [x] = x"
| "join_sep (x # y # ys) = x @ ''/'' @ join_sep (y # ys)"

text \<open>
  Path resolution as the kernel does it: the components are followed from a starting
  directory; before each step the directory stood on must exist and be a directory.  An
  empty component and \<open>.\<close> stay, \<open>..\<close> goes to the parent (the root is its own parent), a
  name goes down.  The result names the place the path denotes, which need not exist.
\<close>

fun walk :: "node \<Rightarrow> string list \<Rightarrow> string list \<Rightarrow> error + string list" where
  "walk r cur [] = Inr cur"
| "walk r cur (c # cs) =
     (case lookup r cur of
        None \<Rightarrow> Inl FileNotFoundError
      | Some (File b) \<Rightarrow> Inl NotADirectoryError
      | Some (Dir es) \<Rightarrow>
          if c = [] \<or> c = ''.'' then walk r cur cs
          else if c = ''..'' then walk r (butlast cur) cs
          else walk r (cur @ [c]) cs)"

definition resolve :: "world \<Rightarrow> string \<Rightarrow> error + string list" where
  "resolve w p =
     (if p = [] then Inl FileNotFoundError
      else walk (root w) (if hd p = CHR ''/'' then [] else cwd w) (split_sep p))"

definition node_at :: "world \<Rightarrow> string \<Rightarrow> error + node" where
  "node_at w p =
     (case resolve w p of
        Inl e \<Rightarrow> Inl e
      | Inr q \<Rightarrow> (case lookup (root w) q of None \<Rightarrow> Inl FileNotFoundError | Some n \<Rightarrow> Inr n))"

subsection \<open>The calls of \<open>os\<close>, \<open>os.path\<close> and \<open>shutil\<close> that the program makes\<close>

definition os_path_exists :: "world \<Rightarrow> string \<Rightarrow> bool" where
  "os_path_exists w p = (case node_at w p of Inr n \<Rightarrow> True | Inl e \<Rightarrow> False)"

definition os_path_isdir :: "world \<Rightarrow> string \<Rightarrow> bool" where
  "os_path_isdir w p = (case node_at w p of Inr (Dir es) \<Rightarrow> True | _ \<Rightarrow> False)"

definition os_path_isfile :: "world \<Rightarrow> string \<Rightarrow> bool" where
  "os_path_isfile w p = (case node_at w p of Inr (File b) \<Rightarrow> True | _ \<Rightarrow> False)"

definition os_listdir :: "world \<Rightarrow> string \<Rightarrow> error + string list" where
  "os_listdir w p =
     (case node_at w p of
        Inl e \<Rightarrow> Inl e
      | Inr (File b) \<Rightarrow> Inl NotADirectoryError
      | Inr (Dir es) \<Rightarrow> Inr (map fst es))"

text \<open>\<open>os.remove(p)\<close> removes a regular file.\<close>

definition os_remove :: "world \<Rightarrow> string \<Rightarrow> error + world" where
  "os_remove w p =
     (case resolve w p of
        Inl e \<Rightarrow> Inl e
      | Inr q \<Rightarrow>
          (case lookup (root w) q of
             None \<Rightarrow> Inl FileNotFoundError
           | Some (Dir es) \<Rightarrow> Inl IsADirectoryError
           | Some (File b) \<Rightarrow> Inr (w\<lparr>root := remove_at q (root w)\<rparr>)))"

text \<open>
  \<open>os.rmdir(p)\<close> removes an empty directory.  A path whose last component is \<open>.\<close> is
  refused with \<open>EINVAL\<close>, and the root with \<open>EBUSY\<close>.
\<close>

definition os_rmdir :: "world \<Rightarrow> string \<Rightarrow> error + world" where
  "os_rmdir w p =
     (case resolve w p of
        Inl e \<Rightarrow> Inl e
      | Inr q \<Rightarrow>
          (case lookup (root w) q of
             None \<Rightarrow> Inl FileNotFoundError
           | Some (File b) \<Rightarrow> Inl NotADirectoryError
           | Some (Dir es) \<Rightarrow>
               if last (split_sep p) = ''.'' then Inl (OSError ''EINVAL'')
               else if q = [] then Inl (OSError ''EBUSY'')
               else if es \<noteq> [] then Inl DirectoryNotEmpty
               else Inr (w\<lparr>root := remove_at q (root w)\<rparr>)))"

text \<open>
  \<open>os.makedirs(name)\<close> with \<open>exist_ok\<close> left at \<open>False\<close>: every missing directory on the way
  is created; \<open>FileExistsError\<close> when nothing had to be created.  \<open>made\<close> says whether a
  directory has been created so far.
\<close>

fun makedirs_from :: "node \<Rightarrow> string list \<Rightarrow> bool \<Rightarrow> string list \<Rightarrow> error + node" where
  "makedirs_from r cur made [] = (if made then Inr r else Inl FileExistsError)"
| "makedirs_from r cur made (c # cs) =
     (case lookup r cur of
        None \<Rightarrow> Inl FileNotFoundError
      | Some (File b) \<Rightarrow> (if cs = [] \<and> c = [] then Inl FileExistsError else Inl NotADirectoryError)
      | Some (Dir es) \<Rightarrow>
          if c = [] \<or> c = ''.'' then makedirs_from r cur made cs
          else if c = ''..'' then makedirs_from r (butlast cur) made cs
          else (case map_of es c of
                  Some n \<Rightarrow> makedirs_from r (cur @ [c]) made cs
                | None \<Rightarrow> makedirs_from (put_at (cur @ [c]) (Dir []) r) (cur @ [c]) True cs))"

definition os_makedirs :: "world \<Rightarrow> string \<Rightarrow> error + world" where
  "os_makedirs w name =
     (if name = [] then Inl FileNotFoundError
      else (case makedirs_from (root w) (if hd name = CHR ''/'' then [] else cwd w) False
                  (split_sep name) of
              Inl e \<Rightarrow> Inl e
            | Inr r \<Rightarrow> Inr (w\<lparr>root := r\<rparr>)))"

definition os_getcwd :: "world \<Rightarrow> string" where
  "os_getcwd w = CHR ''/'' # join_sep (cwd w)"

definition os_chdir :: "world \<Rightarrow> string \<Rightarrow> error + world" where
  "os_chdir w p =
     (case resolve w p of
        Inl e \<Rightarrow> Inl e
      | Inr q \<Rightarrow>
          (case lookup (root w) q of
             None \<Rightarrow> Inl FileNotFoundError
           | Some (File b) \<Rightarrow> Inl NotADirectoryError
           | Some (Dir es) \<Rightarrow> Inr (w\<lparr>cwd := q\<rparr>)))"

text \<open>
  \<open>os.path.normpath\<close>: the components are normalised without looking at the file system.
  \<open>new_comps\<close> is kept with its last element first.
\<close>

fun norm_comps :: "bool \<Rightarrow> string list \<Rightarrow> string list \<Rightarrow> string list" where
  "norm_comps initial_slashes new_comps [] = rev new_comps"
| "norm_comps initial_slashes new_comps (component # comps) =
     (if component = [] \<or> component = ''.'' then norm_comps initial_slashes new_comps comps
      else if component \<noteq> ''..'' \<or> (\<not> initial_slashes \<and> new_comps = [])
              \<or> (new_comps \<noteq> [] \<and> hd new_comps = ''..'')
        then norm_comps initial_slashes (component # new_comps) comps
      else if new_comps \<noteq> [] then norm_comps initial_slashes (tl new_comps) comps
      else norm_comps initial_slashes new_comps comps)"

definition normpath :: "string \<Rightarrow> string" where
  "normpath path =
     (if path = [] then ''.''
      else
        (let initial_slashes =
               (if hd path = CHR ''/''
                then (if take 2 path = ''//'' \<and> take 3 path \<noteq> ''///'' then 2 else 1 :: nat)
                else 0);
             comps = norm_comps (0 < initial_slashes) [] (split_sep path);
             p = replicate initial_slashes CHR ''/'' @ join_sep comps
         in if p = [] then ''.'' else p))"

text \<open>\<open>os.path.abspath(p)\<close> when the working directory is \<open>dir\<close>, and in a world.\<close>

definition abspath_from :: "string \<Rightarrow> string \<Rightarrow> string" where
  "abspath_from dir p = normpath (os_path_join dir p)"

definition os_path_abspath :: "world \<Rightarrow> string \<Rightarrow> string" where
  "os_path_abspath w p = abspath_from (os_getcwd w) p"

text \<open>Reading and writing a whole file (\<open>open(p, "rb").read()\<close>, \<open>open(p, "wb").write(data)\<close>).\<close>

definition read_file :: "world \<Rightarrow> string \<Rightarrow> error + string" where
  "read_file w p =
     (case node_at w p of
        Inl e \<Rightarrow> Inl e
      | Inr (Dir es) \<Rightarrow> Inl IsADirectoryError
      | Inr (File b) \<Rightarrow> Inr b)"

definition write_file :: "world \<Rightarrow> string \<Rightarrow> string \<Rightarrow> error + world" where
  "write_file w p bytes =
     (case resolve w p of
        Inl e \<Rightarrow> Inl e
      | Inr q \<Rightarrow>
          (case lookup (root w) q of
             Some (Dir es) \<Rightarrow> Inl IsADirectoryError
           | _ \<Rightarrow> (case lookup (root w) (butlast q) of
                     Some (Dir es) \<Rightarrow> Inr (w\<lparr>root := put_at q (File bytes) (root w)\<rparr>)
                   | Some (File b) \<Rightarrow> Inl NotADirectoryError
                   | None \<Rightarrow> Inl FileNotFoundError)))"

text \<open>
  \<open>shutil.copy2(src, dst)\<close>: into the directory \<open>dst\<close> under the name of \<open>src\<close>, or onto the
  file \<open>dst\<close>.  Only the bytes are modelled, not the metadata.
\<close>

definition shutil_copy2 :: "world \<Rightarrow> string \<Rightarrow> string \<Rightarrow> error + world" where
  "shutil_copy2 w src dst =
     (let target = (if os_path_isdir w dst then os_path_join dst (snd (os_path_split src)) else dst)
      in if os_path_exists w src \<and> resolve w src = resolve w target
         then Inl (ShutilError ''SameFileError'')
         else (case read_file w src of
                 Inl e \<Rightarrow> Inl e
               | Inr bytes \<Rightarrow> write_file w target bytes))"

text \<open>\<open>shutil.rmtree(p)\<close> removes the directory \<open>p\<close> with everything below it.\<close>

definition shutil_rmtree :: "world \<Rightarrow> string \<Rightarrow> error + world" where
  "shutil_rmtree w p =
     (case resolve w p of
        Inl e \<Rightarrow> Inl e
      | Inr q \<Rightarrow>
          (case lookup (root w) q of
             None \<Rightarrow> Inl FileNotFoundError
           | Some (File b) \<Rightarrow> Inl NotADirectoryError
           | Some (Dir es) \<Rightarrow>
               if q = [] then Inl PermissionError else Inr (w\<lparr>root := remove_at q (root w)\<rparr>)))"

text \<open>
  \<open>shutil.move(src, dst)\<close>: into the directory \<open>dst\<close> under the name of \<open>src\<close> when \<open>dst\<close> is
  a directory (\<open>shutil.Error\<close> when that name is taken, or when a directory would be moved
  into itself), and to the path \<open>dst\<close> otherwise.
\<close>

definition shutil_move :: "world \<Rightarrow> string \<Rightarrow> string \<Rightarrow> error + world" where
  "shutil_move w src dst =
     (let real_dst =
            (if os_path_isdir w dst then os_path_join dst (snd (os_path_split (rstrip_sep src)))
             else dst)
      in if os_path_isdir w dst \<and> os_path_exists w real_dst
         then Inl (ShutilError ''Destination path already exists'')
         else (case resolve w src of
                 Inl e \<Rightarrow> Inl e
               | Inr qs \<Rightarrow>
                   (case lookup (root w) qs of
                      None \<Rightarrow> Inl FileNotFoundError
                    | Some n \<Rightarrow>
                        (case resolve w real_dst of
                           Inl e \<Rightarrow> Inl e
                         | Inr qd \<Rightarrow>
                             if prefix qs qd
                             then Inl (ShutilError ''Cannot move a directory into itself'')
                             else (case lookup (root w) (butlast qd) of
                                     Some (Dir es) \<Rightarrow>
                                       Inr (w\<lparr>root := put_at qd n (remove_at qs (root w))\<rparr>)
                                   | Some (File b) \<Rightarrow> Inl NotADirectoryError
                                   | None \<Rightarrow> Inl FileNotFoundError)))))"

section \<open>External collaborators\<close>

text \<open>
  What the program calls but does not contain is a parameter of the model:
  \<^item> \<open>mypy_run path w\<close>: \<open>mypy.api.run(path)\<close>, the exception it raises (if any) and the world
    it leaves;
  \<^item> \<open>source_to_code source optimize\<close>: the bytes of the compiled module, or \<open>None\<close> when
    the source does not compile;
  \<^item> \<open>cache_from_source file\<close>: the path \<open>py_compile\<close> writes to when it is given no \<open>cfile\<close>;
  \<^item> \<open>zipapp_bytes source main compressed\<close>: the bytes of the archive \<open>zipapp\<close> builds from a
    source tree, or the exception it raises;
  \<^item> \<open>shlex_split command\<close>: \<open>shlex.split(command)\<close>;
  \<^item> \<open>pyi_run argv w\<close>: \<open>PyInstaller.__main__.run()\<close> with \<open>sys.argv = argv\<close>, the exception it
    raises (if any) and the world it leaves.
\<close>

record externals =
  mypy_run :: "string \<Rightarrow> world \<Rightarrow> error option \<times> world"
  source_to_code :: "string \<Rightarrow> int \<Rightarrow> string option"
  cache_from_source :: "string \<Rightarrow> string"
  zipapp_bytes :: "node \<Rightarrow> string \<Rightarrow> bool \<Rightarrow> error + string"
  shlex_split :: "string \<Rightarrow> error + string list"
  pyi_run :: "string list \<Rightarrow> world \<Rightarrow> error option \<times> world"

text \<open>\<open>QCompiler.check_project(path)\<close>: the result of \<open>run(path)\<close> is dropped.\<close>

definition check_project :: "externals \<Rightarrow> world \<Rightarrow> string \<Rightarrow> error option \<times> world" where
  "check_project ext w path = mypy_run ext path w"

text \<open>
  \<open>py_compile.compile(file, cfile, dfile, optimize=optimize)\<close> with \<open>doraise\<close> left at
  \<open>False\<close>, after the standard library: a source that does not compile is reported on
  \<open>sys.stderr\<close> (the line is represented by the file name it reports, \<open>dfile or file\<close>) and
  the call returns; otherwise the directory of \<open>cfile\<close> is created if missing and the
  compiled bytes are written.
\<close>

definition py_compile ::
  "externals \<Rightarrow> world \<Rightarrow> string \<Rightarrow> string \<Rightarrow> string option \<Rightarrow> int \<Rightarrow> error option \<times> world" where
  "py_compile ext w file cfile dfile optimize =
     (if os_path_exists w cfile \<and> \<not> os_path_isfile w cfile then (Some FileExistsError, w)
      else
        (case read_file w file of
           Inl e \<Rightarrow> (Some e, w)
         | Inr source_bytes \<Rightarrow>
             (case source_to_code ext source_bytes optimize of
                None \<Rightarrow> (None, w\<lparr>stderr := stderr w @ [case dfile of None \<Rightarrow> file | Some d \<Rightarrow> d]\<rparr>)
              | Some bytecode \<Rightarrow>
                  (let dirname = fst (os_path_split cfile) in
                   case (if dirname \<noteq> []
                         then (case os_makedirs w dirname of
                                 Inl e \<Rightarrow> if e = FileExistsError then Inr w else Inl e
                               | Inr w1 \<Rightarrow> Inr w1)
                         else Inr w) of
                     Inl e \<Rightarrow> (Some e, w)
                   | Inr w1 \<Rightarrow>
                       (case write_file w1 cfile bytecode of
                          Inl e \<Rightarrow> (Some e, w1)
                        | Inr w2 \<Rightarrow> (None, w2))))))"

section \<open>QCompilerPYC and QCompilerPYD\<close>

text \<open>
  The attributes of a \<open>QCompilerPYC\<close>; \<open>kind\<close> is the class of the object, which selects
  \<open>compile_file\<close> (the only method \<open>QCompilerPYD\<close> overrides).
\<close>

datatype kind = PYC | PYD

record pyc =
  p_kind :: kind
  p_clean :: bool
  p_quiet :: bool
  p_optimize :: int
  p_exclude :: "string list"
  p_path :: string
  p_output :: string

text \<open>\<open>QCompilerPYC.__init__\<close> and \<open>QCompilerPYD.__init__\<close>.\<close>

definition QCompilerPYC_init ::
  "world \<Rightarrow> string list \<Rightarrow> string \<Rightarrow> bool \<Rightarrow> int \<Rightarrow> bool \<Rightarrow> pyc" where
  "QCompilerPYC_init w excl path cln optimize quiet =
     \<lparr> p_kind = PYC, p_clean = cln, p_quiet = quiet, p_optimize = optimize, p_exclude = excl,
       p_path = path, p_output = os_path_join3 (os_getcwd w) ''bin'' ''pyc'' \<rparr>"

definition QCompilerPYD_init ::
  "world \<Rightarrow> string list \<Rightarrow> string \<Rightarrow> bool \<Rightarrow> int \<Rightarrow> bool \<Rightarrow> pyc" where
  "QCompilerPYD_init w excl path cln optimize quiet =
     (QCompilerPYC_init w excl path cln optimize quiet)
       \<lparr> p_kind := PYD, p_output := os_path_join3 (os_getcwd w) ''bin'' ''pyd'' \<rparr>"

text \<open>
  \<open>clean_directory(directory)\<close>, the same method in \<open>QCompilerPYC\<close> and \<open>QCompilerPYZ\<close>.  It
  does not read \<open>self\<close>.  The first argument bounds the depth of the recursive calls:
  Python raises \<open>RecursionError\<close> at its recursion limit.  The result is the exception
  raised, if any, and the world at that point.
\<close>

fun clean_directory :: "nat \<Rightarrow> world \<Rightarrow> string \<Rightarrow> error option \<times> world"
  and clean_items :: "nat \<Rightarrow> world \<Rightarrow> string \<Rightarrow> string list \<Rightarrow> error option \<times> world" where
  "clean_directory 0 w directory = (Some RecursionError, w)"
| "clean_directory (Suc n) w directory =
     (case os_listdir w directory of
        Inl e \<Rightarrow> (Some e, w)
      | Inr items \<Rightarrow>
          (case clean_items n w directory items of
             (Some e, w1) \<Rightarrow> (Some e, w1)
           | (None, w1) \<Rightarrow>
               (case os_rmdir w1 directory of
                  Inl e \<Rightarrow> (Some e, w1)
                | Inr w2 \<Rightarrow> (None, w2))))"
| "clean_items n w directory [] = (None, w)"
| "clean_items n w directory (item # items) =
     (let i_path = os_path_join directory item in
      case (if os_path_isdir w i_path then clean_directory n w i_path
            else (case os_remove w i_path of
                    Inl e \<Rightarrow> (Some e, w)
                  | Inr w1 \<Rightarrow> (None, w1))) of
        (Some e, w1) \<Rightarrow> (Some e, w1)
      | (None, w1) \<Rightarrow> clean_items n w1 directory items)"

text \<open>\<open>QCompilerPYC.copy_file\<close>.\<close>

definition copy_file :: "world \<Rightarrow> string \<Rightarrow> string \<Rightarrow> error option \<times> world" where
  "copy_file w src dst =
     (case shutil_copy2 w src dst of Inl e \<Rightarrow> (Some e, w) | Inr w1 \<Rightarrow> (None, w1))"

text \<open>
  \<open>compile_file(file, to)\<close>: \<open>QCompilerPYC\<close> passes the \<open>.pyc\<close> path as \<open>cfile\<close>;
  \<open>QCompilerPYD\<close> passes the \<open>.pyd\<close> path as \<open>dfile\<close> and no \<open>cfile\<close>.
\<close>

definition compile_file ::
  "externals \<Rightarrow> pyc \<Rightarrow> world \<Rightarrow> string \<Rightarrow> string \<Rightarrow> error option \<times> world" where
  "compile_file ext self w file to =
     (case p_kind self of
        PYC \<Rightarrow> py_compile ext w file (fst (os_path_splitext to) @ ''.pyc'') None (p_optimize self)
      | PYD \<Rightarrow> py_compile ext w file (cache_from_source ext file)
                 (Some (fst (os_path_splitext to) @ ''.pyd'')) (p_optimize self))"

text \<open>\<open>QCompilerPYC.compile_directory(directory, to)\<close>; \<open>self.exclude\<close> is not read.\<close>

fun compile_directory ::
    "nat \<Rightarrow> externals \<Rightarrow> pyc \<Rightarrow> world \<Rightarrow> string \<Rightarrow> string option \<Rightarrow> error option \<times> world"
  and compile_items ::
    "nat \<Rightarrow> externals \<Rightarrow> pyc \<Rightarrow> world \<Rightarrow> string \<Rightarrow> string \<Rightarrow> string list \<Rightarrow> error option \<times> world"
  where
  "compile_directory 0 ext self w directory to_arg = (Some RecursionError, w)"
| "compile_directory (Suc n) ext self w directory to_arg =
     (let to = (case to_arg of
                  None \<Rightarrow> os_path_join (p_output self) (snd (os_path_split (p_path self)))
                | Some t \<Rightarrow> t) in
      case (if \<not> os_path_exists w to then os_makedirs w to else Inr w) of
        Inl e \<Rightarrow> (Some e, w)
      | Inr w1 \<Rightarrow>
          (case os_listdir w1 directory of
             Inl e \<Rightarrow> (Some e, w1)
           | Inr items \<Rightarrow> compile_items n ext self w1 directory to items))"
| "compile_items n ext self w directory to [] = (None, w)"
| "compile_items n ext self w directory to (item # items) =
     (let i_path = os_path_join directory item;
          t_path = os_path_join to item in
      case (if os_path_isdir w i_path then compile_directory n ext self w i_path (Some t_path)
            else if os_path_isfile w i_path
              then (if snd (os_path_splitext i_path) = ''.py''
                    then compile_file ext self w i_path t_path
                    else copy_file w i_path t_path)
            else (None, w)) of
        (Some e, w1) \<Rightarrow> (Some e, w1)
      | (None, w1) \<Rightarrow> compile_items n ext self w1 directory to items)"

text \<open>\<open>QCompilerPYC.compile()\<close>.\<close>

definition compile_pyc :: "nat \<Rightarrow> externals \<Rightarrow> pyc \<Rightarrow> world \<Rightarrow> error option \<times> world" where
  "compile_pyc n ext self w =
     (case check_project ext w (p_path self) of
        (Some e, w0) \<Rightarrow> (Some e, w0)
      | (None, w0) \<Rightarrow>
     (case (if \<not> os_path_exists w0 (p_path self) then os_makedirs w0 (p_path self) else Inr w0) of
        Inl e \<Rightarrow> (Some e, w0)
      | Inr w1 \<Rightarrow>
     (case (if p_clean self then clean_directory n w1 (p_output self) else (None, w1)) of
        (Some e, w2) \<Rightarrow> (Some e, w2)
      | (None, w2) \<Rightarrow>
     (case (if os_path_isdir w2 (p_path self)
            then compile_directory n ext self w2 (p_path self) None else (None, w2)) of
        (Some e, w3) \<Rightarrow> (Some e, w3)
      | (None, w3) \<Rightarrow>
          if os_path_isfile w3 (p_path self) \<and> snd (os_path_splitext (p_path self)) = ''.py''
          then compile_file ext self w3 (p_path self)
                 (os_path_join (p_output self) (snd (os_path_split (p_path self))))
          else (None, w3)))))"

section \<open>QCompilerPYZ\<close>

text \<open>
  The object passed as \<open>compiler\<close>: an object whose type is \<open>QCompilerPYC\<close> or
  \<open>QCompilerPYD\<close> (its \<open>p_kind\<close> says which), or an object of some other class, of which
  only the name of the class is used.
\<close>

datatype inner = Compiler pyc | Other string

record pyz =
  z_clean :: bool
  z_path :: string
  z_name :: string
  z_mainClass :: string
  z_compressed :: bool
  z_compiler :: "inner option"

text \<open>
  \<open>QCompilerPYZ.create_archive(source, target)\<close>: \<open>zipapp.create_archive\<close> reads the source
  tree and writes the archive to \<open>target\<close>.
\<close>

definition create_archive ::
  "externals \<Rightarrow> pyz \<Rightarrow> world \<Rightarrow> string \<Rightarrow> string \<Rightarrow> error option \<times> world" where
  "create_archive ext self w source target =
     (case node_at w source of
        Inl e \<Rightarrow> (Some e, w)
      | Inr n \<Rightarrow>
          (case zipapp_bytes ext n (z_mainClass self) (z_compressed self) of
             Inl e \<Rightarrow> (Some e, w)
           | Inr bytes \<Rightarrow>
               (case write_file w target bytes of
                  Inl e \<Rightarrow> (Some e, w)
                | Inr w1 \<Rightarrow> (None, w1))))"

text \<open>\<open>QCompilerPYZ.copy_additional_files(src, dst)\<close>.\<close>

fun copy_additional_files :: "nat \<Rightarrow> world \<Rightarrow> string \<Rightarrow> string \<Rightarrow> error option \<times> world"
  and copy_additional_items ::
    "nat \<Rightarrow> world \<Rightarrow> string \<Rightarrow> string \<Rightarrow> string list \<Rightarrow> error option \<times> world" where
  "copy_additional_files 0 w src dst = (Some RecursionError, w)"
| "copy_additional_files (Suc n) w src dst =
     (if os_path_isdir w src then
        (case (if \<not> os_path_exists w src then os_makedirs w src else Inr w) of
           Inl e \<Rightarrow> (Some e, w)
         | Inr w1 \<Rightarrow>
        (case (if \<not> os_path_exists w1 dst then os_makedirs w1 dst else Inr w1) of
           Inl e \<Rightarrow> (Some e, w1)
         | Inr w2 \<Rightarrow>
        (case os_listdir w2 src of
           Inl e \<Rightarrow> (Some e, w2)
         | Inr items \<Rightarrow> copy_additional_items n w2 src dst items)))
      else if \<not> endswith src ''.py'' \<and> \<not> endswith src ''.pyc'' \<and> \<not> endswith src ''.pyd''
              \<and> \<not> endswith src ''.pyo''
        then (case shutil_copy2 w src dst of Inl e \<Rightarrow> (Some e, w) | Inr w1 \<Rightarrow> (None, w1))
      else (None, w))"
| "copy_additional_items n w src dst [] = (None, w)"
| "copy_additional_items n w src dst (item # items) =
     (case copy_additional_files n w (os_path_join src item) (os_path_join dst item) of
        (Some e, w1) \<Rightarrow> (Some e, w1)
      | (None, w1) \<Rightarrow> copy_additional_items n w1 src dst items)"

text \<open>\<open>mod_path\<close>: \<open>self.path\<close> with \<open>/\<close> for backslashes and without trailing separators.\<close>

definition mod_path :: "string \<Rightarrow> string" where
  "mod_path path = rstrip_sep (replace_backslash path)"

text \<open>
  \<open>QCompilerPYZ.compile()\<close>.  With an inner compiler the steps are, in this order: ensure
  \<open>bin/pyz/\<close>, ensure \<open>obj/pyz/\<close>, clean \<open>obj/pyz/\<close>, and only then the test of the
  compiler's type.  The inner compiler runs with its \<open>output\<close> attribute set to the
  staging directory.
\<close>

definition compile_pyz :: "nat \<Rightarrow> externals \<Rightarrow> pyz \<Rightarrow> world \<Rightarrow> error option \<times> world" where
  "compile_pyz n ext self w =
     (case check_project ext w (z_path self) of
        (Some e, w0) \<Rightarrow> (Some e, w0)
      | (None, w0) \<Rightarrow>
     (case (if \<not> os_path_exists w0 ''bin/pyz/'' then os_makedirs w0 ''bin/pyz/'' else Inr w0) of
        Inl e \<Rightarrow> (Some e, w0)
      | Inr w1 \<Rightarrow>
     (case z_compiler self of
        None \<Rightarrow> create_archive ext self w1 (mod_path (z_path self)) (''bin/pyz/'' @ z_name self)
      | Some compiler \<Rightarrow>
     (case (if \<not> os_path_exists w1 ''obj/pyz/'' then os_makedirs w1 ''obj/pyz/'' else Inr w1) of
        Inl e \<Rightarrow> (Some e, w1)
      | Inr w2 \<Rightarrow>
     (case clean_directory n w2 ''obj/pyz/'' of
        (Some e, w3) \<Rightarrow> (Some e, w3)
      | (None, w3) \<Rightarrow>
     (case (case compiler of
              Compiler c \<Rightarrow> Inr (case p_kind c of PYC \<Rightarrow> ''bin/pyc'' | PYD \<Rightarrow> ''bin/pyd'', c)
            | Other type_name \<Rightarrow> Inl (CompilerError (''Incompatible compiler: '' @ type_name))) of
        Inl e \<Rightarrow> (Some e, w3)
      | Inr (compilerpath, c) \<Rightarrow>
     (case (if \<not> os_path_exists w3 (''obj/pyz/'' @ compilerpath)
            then os_makedirs w3 (''obj/pyz/'' @ compilerpath) else Inr w3) of
        Inl e \<Rightarrow> (Some e, w3)
      | Inr w4 \<Rightarrow>
     (case compile_pyc n ext (c\<lparr>p_output := ''obj/pyz/'' @ compilerpath\<rparr>) w4 of
        (Some e, w5) \<Rightarrow> (Some e, w5)
      | (None, w5) \<Rightarrow>
     (case create_archive ext self w5
             (''obj/pyz/'' @ compilerpath @ ''/'' @ snd (os_path_split (z_path self)))
             (''bin/pyz/'' @ z_name self) of
        (Some e, w6) \<Rightarrow> (Some e, w6)
      | (None, w6) \<Rightarrow> copy_additional_files n w6 (z_path self) ''bin/pyz/'')))))))))"

section \<open>QCompilerEXE: the configuration and its command line\<close>

text \<open>
  The attributes \<open>QCompilerEXE.__init__\<close> assigns, under their names.  An argument whose
  default is \<open>None\<close> is an option; \<open>appName\<close> is one as well, because
  \<open>MultiCompiler.__init__\<close> tests it with \<open>is None\<close> (its default is the empty string).

  The constructor stores the caller's list of exclusions without copying it, and
  \<open>MultiCompiler.__init__\<close> appends to it in place.  So \<open>exclude\<close> is the content of a list
  object, and \<open>excludeId\<close>, which is not an attribute, is the identity of that object: two
  targets with the same \<open>excludeId\<close> share one list.
\<close>

record exe =
  oneFile :: bool
  hideConsole :: bool
  mainFolder :: string
  mainFile :: string
  mainContents :: "string list"
  dllFiles :: "string list option"
  exclude :: "string list"
  excludeId :: nat
  icon :: string
  allFiles :: "(string \<times> string) list"
  upxDirectory :: "string option"
  noUnicode :: bool
  cleanCompile :: bool
  logLevel :: string
  appName :: "string option"
  extraBinaries :: "(string \<times> string) list option"
  importPaths :: "string list option"
  hiddenImports :: "string list"
  additionalHooksDirs :: "string list option"
  runtimeHooks :: "string list option"
  excludeModules :: "string list option"
  key :: "string option"
  debug :: "string option"
  applySymbolTable :: bool
  noUPX :: bool
  versionFile :: "string option"
  manifestFile :: "string option"
  requestElevation :: bool
  remoteDesktop :: bool
  privateAssemblies :: bool
  noPreferRedirects :: bool
  osxBundleIndentifier :: "string option"
  runtimeTempDir :: string
  bootloaderIgnoreSignals :: bool
  additionalArgs :: "string list"

text \<open>One fragment when the flag is set, none otherwise.\<close>

definition flag :: "bool \<Rightarrow> string \<Rightarrow> string list" where
  "flag b s = (if b then [s] else [])"

text \<open>\<open>if v: args.append(pre "\"%s\"" % v)\<close> for an optional string.\<close>

definition opt_quoted :: "string option \<Rightarrow> string \<Rightarrow> string list" where
  "opt_quoted v pre = (case v of None \<Rightarrow> [] | Some s \<Rightarrow> if s = [] then [] else [pre @ quoted s])"

text \<open>\<open>QCompilerEXE.get_args\<close>: the fragments in the order of the appends.\<close>

definition get_args :: "exe \<Rightarrow> string list" where
  "get_args c =
     [''-y'']
     @ flag (oneFile c) ''-F''
     @ flag (hideConsole c) ''-w''
     @ (if truthy (icon c) then [''-i '' @ quoted (join_path (mainFolder c) (icon c))] else [])
     @ map (\<lambda>(file_location, exported_location).
              ''--add-data '' @ quoted (replace_backslash file_location) @ '';''
                @ quoted exported_location) (allFiles c)
     @ map (\<lambda>file. ''--add-data '' @ quoted (join_path (mainFolder c) (replace_backslash file))
                @ '';'' @ quoted ''.'') (elements (dllFiles c))
     @ opt_quoted (upxDirectory c) ''--upx-dir ''
     @ flag (noUnicode c) ''-a''
     @ flag (cleanCompile c) ''--clean''
     @ (if truthy (logLevel c) then [''--log-level '' @ upper (logLevel c)] else [])
     @ opt_quoted (appName c) ''-n ''
     @ map (\<lambda>(src, dist). ''--add-binary '' @ quoted src @ '';'' @ quoted dist)
         (elements (extraBinaries c))
     @ map (\<lambda>path. ''-p '' @ path) (elements (importPaths c))
     @ map (\<lambda>hidden_import. ''--hidden-import '' @ quoted hidden_import) (hiddenImports c)
     @ map (\<lambda>hooks_dir. ''--additional-hooks-dir '' @ quoted hooks_dir)
         (elements (additionalHooksDirs c))
     @ map (\<lambda>runtime_hook. ''--runtime-hook '' @ quoted runtime_hook) (elements (runtimeHooks c))
     @ map (\<lambda>excl. ''--exclude-module '' @ quoted excl) (elements (excludeModules c))
     @ opt_quoted (key c) ''--key ''
     @ opt_quoted (debug c) ''--debug ''
     @ flag (applySymbolTable c) ''-s''
     @ flag (noUPX c) ''--noupx''
     @ opt_quoted (versionFile c) ''--version-file ''
     @ opt_quoted (manifestFile c) ''-m ''
     @ flag (requestElevation c) ''--uac-admin''
     @ flag (remoteDesktop c) ''--uac-uiaccess''
     @ flag (privateAssemblies c) ''--win-private-assemblies''
     @ flag (noPreferRedirects c) ''--win-no-prefer-redirects''
     @ opt_quoted (osxBundleIndentifier c) ''--osx-bundle-identifier ''
     @ (if truthy (runtimeTempDir c) then [''--runtime-tmpdir '' @ quoted (runtimeTempDir c)] else [])
     @ flag (bootloaderIgnoreSignals c) ''--bootloader-ignore-signals''
     @ ['' '' @ quoted (join_path (mainFolder c) (mainFile c))]"

text \<open>
  \<open>QCompilerEXE.parse_arg_list\<close>: \<open>args_list[0]\<close> raises \<open>IndexError\<close> on the empty
  list; when the list has more than one element the loop runs over the whole list.
\<close>

definition parse_arg_list :: "string list \<Rightarrow> error + string" where
  "parse_arg_list args_list =
     (case args_list of
        [] \<Rightarrow> Inl IndexError
      | a # rest \<Rightarrow>
          Inr (if length args_list > 1
               then foldl (\<lambda>args arg. args @ '' '' @ arg) a args_list
               else a))"

text \<open>\<open>QCompilerEXE.get_command\<close>.\<close>

definition get_command :: "string list \<Rightarrow> error + string" where
  "get_command args_list =
     (case parse_arg_list args_list of
        Inl e \<Rightarrow> Inl e
      | Inr args \<Rightarrow> Inr (''pyinstaller '' @ args))"

text \<open>
  The configuration that \<open>QCompilerEXE(exclude=[], icon="", main_folder="proj",
  main_file="main.py", hidden_imports=[])\<close> describes: every other argument at its default.
\<close>

definition default_exe :: exe where
  "default_exe =
     \<lparr> oneFile = False, hideConsole = False, mainFolder = ''proj'', mainFile = ''main.py'',
       mainContents = [], dllFiles = None, exclude = [], excludeId = 0, icon = [],
       allFiles = [],
       upxDirectory = None, noUnicode = False, cleanCompile = False, logLevel = ''INFO'',
       appName = Some [], extraBinaries = None, importPaths = None, hiddenImports = [],
       additionalHooksDirs = None, runtimeHooks = None, excludeModules = None, key = None,
       debug = None, applySymbolTable = False, noUPX = False, versionFile = None,
       manifestFile = None, requestElevation = False, remoteDesktop = False,
       privateAssemblies = False, noPreferRedirects = False, osxBundleIndentifier = None,
       runtimeTempDir = [], bootloaderIgnoreSignals = False, additionalArgs = [] \<rparr>"

section \<open>QCompilerEXE: construction, indexing and the build\<close>

subsection \<open>Attribute lookup\<close>

text \<open>
  The classes of \<^verbatim>\<open>qcompiler.py\<close>, their bases and the names their bodies define.
  \<open>QCompilerEXE\<close> extends \<open>object\<close>, not \<open>QCompiler\<close>.
\<close>

datatype cls =
  C_object | C_QCompiler | C_QCompilerPYC | C_QCompilerPYD | C_QCompilerPYZ | C_QCompilerEXE
  | C_MultiCompiler

fun mro :: "cls \<Rightarrow> cls list" where
  "mro C_object = [C_object]"
| "mro C_QCompiler = [C_QCompiler, C_object]"
| "mro C_QCompilerPYC = [C_QCompilerPYC, C_QCompiler, C_object]"
| "mro C_QCompilerPYD = [C_QCompilerPYD, C_QCompilerPYC, C_QCompiler, C_object]"
| "mro C_QCompilerPYZ = [C_QCompilerPYZ, C_QCompiler, C_object]"
| "mro C_QCompilerEXE = [C_QCompilerEXE, C_object]"
| "mro C_MultiCompiler = [C_MultiCompiler, C_QCompilerEXE, C_object]"

fun class_body :: "cls \<Rightarrow> string list" where
  "class_body C_object = []"
| "class_body C_QCompiler = [''__init__'', ''compile'', ''check_project'']"
| "class_body C_QCompilerPYC =
     [''__init__'', ''clean_directory'', ''compile_directory'', ''copy_file'', ''compile_file'',
      ''compile'']"
| "class_body C_QCompilerPYD = [''__init__'', ''compile_file'']"
| "class_body C_QCompilerPYZ =
     [''__init__'', ''create_archive'', ''clean_directory'', ''copy_additional_files'', ''compile'']"
| "class_body C_QCompilerEXE =
     [''__init__'', ''check'', ''automatic'', ''get_command'', ''compile'', ''move_project'',
      ''join_path'', ''_reindex_relpath'', ''reindex'', ''get_args'', ''parse_arg_list'']"
| "class_body C_MultiCompiler = [''__init__'', ''compile'']"

text \<open>
  \<open>self.name\<close> finds an attribute assigned on the instance, or a name defined in the body of
  a class of the method resolution order; otherwise it raises \<open>AttributeError\<close>.  (The
  attributes every \<open>object\<close> has, such as \<open>__class__\<close>, are left out.)
\<close>

definition has_attr :: "cls \<Rightarrow> string list \<Rightarrow> string \<Rightarrow> bool" where
  "has_attr k assigned name =
     (name \<in> set assigned \<or> list_ex (\<lambda>b. name \<in> set (class_body b)) (mro k))"

text \<open>The attributes \<open>QCompilerEXE.__init__\<close> has assigned when it calls \<open>self.check()\<close>.\<close>

definition exe_assigned :: "string list" where
  "exe_assigned =
     [''oneFile'', ''hideConsole'', ''mainFolder'', ''mainFile'', ''mainContents'', ''dllFiles'',
      ''exclude'', ''icon'', ''allFiles'', ''upxDirectory'', ''noUnicode'', ''cleanCompile'',
      ''logLevel'', ''appName'', ''extraBinaries'', ''importPaths'', ''hiddenImports'',
      ''additionalHooksDirs'', ''runtimeHooks'', ''excludeModules'', ''key'', ''debug'',
      ''applySymbolTable'', ''noUPX'', ''versionFile'', ''manifestFile'', ''requestElevation'',
      ''remoteDesktop'', ''privateAssemblies'', ''noPreferRedirects'', ''osxBundleIndentifier'',
      ''runtimeTempDir'', ''bootloaderIgnoreSignals'', ''additionalArgs'']"

subsection \<open>\<open>__init__\<close> and \<open>check\<close>\<close>

text \<open>
  \<open>QCompilerEXE.check()\<close> on an instance of class \<open>k\<close> with the attributes \<open>assigned\<close>;
  \<open>path\<close> is the value of the attribute \<open>path\<close> if the instance has one.
  \<open>self.check_project(self.path)\<close> evaluates \<open>self.check_project\<close>, then \<open>self.path\<close>, then
  makes the call; then the icon is tested.
\<close>

definition check ::
  "externals \<Rightarrow> cls \<Rightarrow> string list \<Rightarrow> exe \<Rightarrow> string option \<Rightarrow> world \<Rightarrow> error option \<times> world"
  where
  "check ext k assigned self path w =
     (if \<not> has_attr k assigned ''check_project'' then (Some (AttributeError ''check_project''), w)
      else (case path of
              None \<Rightarrow> (Some (AttributeError ''path''), w)
            | Some p \<Rightarrow>
                (case check_project ext w p of
                   (Some e, w1) \<Rightarrow> (Some e, w1)
                 | (None, w1) \<Rightarrow>
                     if icon self \<in> set (exclude self)
                     then (Some (CompilerError ''Can't exclude icon!''), w1)
                     else (None, w1))))"

text \<open>
  \<open>QCompilerEXE.__init__\<close>.  The arguments are given as the record \<open>args\<close> of the attributes
  they are assigned to (its \<open>mainContents\<close> and \<open>allFiles\<close> are not arguments and are
  overwritten), with \<open>hidden_imports\<close> apart because \<open>None\<close> is replaced by an empty list.
  \<open>os.listdir(main_folder)\<close> is the one call before \<open>self.check()\<close> that can raise.
  \<open>__init__\<close> assigns no attribute \<open>path\<close>.  The result is the exception raised, or the
  constructed object.  (\<open>sys.setrecursionlimit\<close> is not modelled: the recursion limit is an
  argument of the recursive methods.)
\<close>

definition QCompilerEXE_init ::
  "externals \<Rightarrow> world \<Rightarrow> exe \<Rightarrow> string list option \<Rightarrow> (error + exe) \<times> world" where
  "QCompilerEXE_init ext w args hidden_imports =
     (case os_listdir w (mainFolder args) of
        Inl e \<Rightarrow> (Inl e, w)
      | Inr names \<Rightarrow>
          (let self = args\<lparr> mainContents := names, allFiles := [],
                           hiddenImports := (case hidden_imports of None \<Rightarrow> [] | Some l \<Rightarrow> l) \<rparr>
           in case check ext C_QCompilerEXE exe_assigned self None w of
                (Some e, w1) \<Rightarrow> (Inl e, w1)
              | (None, w1) \<Rightarrow> (Inr self, w1)))"

subsection \<open>The file index\<close>

text \<open>
  \<open>_reindex_relpath(folder)\<close> and \<open>reindex()\<close>: the object with its \<open>allFiles\<close> extended, or
  the exception raised.  The directory an indexed file is exported to is
  \<open>os.path.join(*os.path.split(export_path)[:-1])\<close>, the head of the split.
\<close>

fun reindex_relpath :: "nat \<Rightarrow> world \<Rightarrow> exe \<Rightarrow> string \<Rightarrow> error + exe"
  and reindex_rel_items :: "nat \<Rightarrow> world \<Rightarrow> exe \<Rightarrow> string \<Rightarrow> string list \<Rightarrow> error + exe" where
  "reindex_relpath 0 w self folder = Inl RecursionError"
| "reindex_relpath (Suc n) w self folder =
     (case os_listdir w (join_path (mainFolder self) folder) of
        Inl e \<Rightarrow> Inl e
      | Inr names \<Rightarrow> reindex_rel_items n w self folder names)"
| "reindex_rel_items n w self folder [] = Inr self"
| "reindex_rel_items n w self folder (name # names) =
     (let export_path = join_path folder name;
          path = join_path (mainFolder self) export_path in
      if export_path \<in> set (exclude self) then reindex_rel_items n w self folder names
      else if export_path \<notin> set [''bin'', ''obj'', ''__pycache__'', mainFile self]
              \<and> snd (os_path_split export_path) \<notin> set [''__pycache__'']
        then
          (let self1 = (if os_path_isfile w path
                        then self\<lparr>allFiles := allFiles self @ [(path, fst (os_path_split export_path))]\<rparr>
                        else self) in
           case (if os_path_isdir w path then reindex_relpath n w self1 export_path
                 else Inr self1) of
             Inl e \<Rightarrow> Inl e
           | Inr self2 \<Rightarrow> reindex_rel_items n w self2 folder names)
      else reindex_rel_items n w self folder names)"

fun reindex_items :: "nat \<Rightarrow> world \<Rightarrow> exe \<Rightarrow> string list \<Rightarrow> error + exe" where
  "reindex_items n w self [] = Inr self"
| "reindex_items n w self (export_path # rest) =
     (let path = join_path (mainFolder self) export_path in
      if export_path \<in> set (exclude self) then reindex_items n w self rest
      else if export_path \<notin> set [''bin'', ''obj'', ''__pycache__'', mainFile self]
        then
          (let self1 = (if os_path_isfile w path
                        then self\<lparr>allFiles := allFiles self @ [(path, ''.'')]\<rparr>
                        else self) in
           case (if os_path_isdir w path then reindex_relpath n w self1 export_path
                 else Inr self1) of
             Inl e \<Rightarrow> Inl e
           | Inr self2 \<Rightarrow> reindex_items n w self2 rest)
      else reindex_items n w self rest)"

definition reindex :: "nat \<Rightarrow> world \<Rightarrow> exe \<Rightarrow> error + exe" where
  "reindex n w self = reindex_items n w (self\<lparr>allFiles := []\<rparr>) (mainContents self)"

subsection \<open>The build\<close>

text \<open>\<open>QCompilerEXE.move_project(src, dst)\<close>.\<close>

fun move_items :: "world \<Rightarrow> string \<Rightarrow> string \<Rightarrow> string list \<Rightarrow> error option \<times> world" where
  "move_items w src dst [] = (None, w)"
| "move_items w src dst (file_or_folder # rest) =
     (let dst1 = os_path_join dst file_or_folder in
      case (if os_path_exists w dst1
            then (if os_path_isfile w dst1 then os_remove w dst1 else shutil_rmtree w dst1)
            else Inr w) of
        Inl e \<Rightarrow> (Some e, w)
      | Inr w1 \<Rightarrow>
          (case shutil_move w1 (os_path_join src file_or_folder) dst of
             Inl e \<Rightarrow> (Some e, w1)
           | Inr w2 \<Rightarrow> move_items w2 src dst rest))"

definition move_project :: "world \<Rightarrow> string \<Rightarrow> string \<Rightarrow> error option \<times> world" where
  "move_project w src dst =
     (case (if \<not> os_path_exists w dst then os_makedirs w dst else Inr w) of
        Inl e \<Rightarrow> (Some e, w)
      | Inr w1 \<Rightarrow>
          (case os_listdir w1 src of
             Inl e \<Rightarrow> (Some e, w1)
           | Inr names \<Rightarrow> move_items w1 src dst names))"

text \<open>
  The local variables of \<open>QCompilerEXE.compile(command)\<close> that depend on the object only
  (\<open>output_dir\<close> is the variable \<open>output\<close>).
\<close>

definition temporary_directory :: "exe \<Rightarrow> string" where
  "temporary_directory self = join_path (mainFolder self) ''obj''"

definition output_dir :: "exe \<Rightarrow> string" where
  "output_dir self = join_path (mainFolder self) ''bin''"

definition dist_path :: "exe \<Rightarrow> string" where
  "dist_path self = os_path_join (temporary_directory self) ''application''"

definition build_path :: "exe \<Rightarrow> string" where
  "build_path self = os_path_join (temporary_directory self) ''build''"

definition extra_args :: "exe \<Rightarrow> string list" where
  "extra_args self =
     [''--distpath'', dist_path self] @ [''--workpath'', build_path self]
     @ [''--specpath'', temporary_directory self]"

text \<open>
  \<open>QCompilerEXE.compile(command)\<close>.  There is no \<open>try\<close>: an exception of \<open>shlex.split\<close> or of
  the backend leaves the method at once.  After the backend has returned, the two lines
  are written to \<open>sys.stderr\<close> in every case (\<open>traceback.format_exc()\<close> outside an
  exception handler gives \<open>NoneType: None\<close>), and the project is moved.  (The import of
  PyInstaller is taken to succeed.)
\<close>

definition compile_exe :: "externals \<Rightarrow> exe \<Rightarrow> world \<Rightarrow> string \<Rightarrow> error option \<times> world" where
  "compile_exe ext self w command =
     (case shlex_split ext command of
        Inl e \<Rightarrow> (Some e, w)
      | Inr argv \<Rightarrow>
          (case pyi_run ext (argv @ extra_args self) w of
             (Some e, w1) \<Rightarrow> (Some e, w1)
           | (None, w1) \<Rightarrow>
               (let w2 = w1\<lparr>stderr := stderr w1 @ [''An error occurred, traceback follows:'',
                                                     ''NoneType: None'']\<rparr>;
                    output_directory = os_path_abspath w2 (output_dir self)
                in move_project w2 (dist_path self) output_directory)))"

text \<open>\<open>QCompilerEXE.automatic()\<close>.\<close>

definition automatic :: "nat \<Rightarrow> externals \<Rightarrow> exe \<Rightarrow> world \<Rightarrow> (error + exe) \<times> world" where
  "automatic n ext self w =
     (case reindex n w self of
        Inl e \<Rightarrow> (Inl e, w)
      | Inr self1 \<Rightarrow>
          (case get_command (get_args self1) of
             Inl e \<Rightarrow> (Inl e, w)
           | Inr command \<Rightarrow>
               (case compile_exe ext self1 w command of
                  (Some e, w1) \<Rightarrow> (Inl e, w1)
                | (None, w1) \<Rightarrow> (Inr self1, w1))))"

section \<open>MultiCompiler\<close>

text \<open>The attributes \<open>MultiCompiler.__init__\<close> assigns.\<close>

record multi =
  m_appName :: string
  binFolders :: "string list"
  compilers :: "exe list"

text \<open>
  The first loop of \<open>MultiCompiler.__init__\<close>: the accumulators are \<open>_temp_appnames\<close>,
  \<open>_temp_mainfiles\<close> and \<open>binfolders\<close>; the result is the last two.
\<close>

fun check_targets ::
  "exe list \<Rightarrow> string option list \<Rightarrow> string list \<Rightarrow> string list
     \<Rightarrow> error + string list \<times> string list" where
  "check_targets [] temp_appnames temp_mainfiles binfolders = Inr (temp_mainfiles, binfolders)"
| "check_targets (compiler # rest) temp_appnames temp_mainfiles binfolders =
     (if oneFile compiler
      then Inl (ValueError (''Compiler with mainfile '' @ squoted (mainFile compiler)
                  @ '' is in one-file mode, and one-file mode is not supported in MultiCompiler''))
      else if appName compiler \<in> set temp_appnames
      then Inl (ValueError (''A compiler with app name ''
                  @ squoted (case appName compiler of None \<Rightarrow> ''None'' | Some a \<Rightarrow> a)
                  @ '' already exists''))
      else check_targets rest (temp_appnames @ [appName compiler])
             (temp_mainfiles @ [mainFile compiler])
             (binfolders @ [case appName compiler of
                              None \<Rightarrow> fst (os_path_splitext (mainFile compiler))
                            | Some a \<Rightarrow> a]))"

text \<open>
  The body of the second loop for one target whose list of exclusions holds \<open>excl\<close>, in the
  world after \<open>os.chdir(compiler.mainFolder)\<close>: \<open>excludes\<close> is computed once, before the
  appends.  The result is what the list holds afterwards.
\<close>

definition add_mainfiles :: "world \<Rightarrow> string list \<Rightarrow> string list \<Rightarrow> string list" where
  "add_mainfiles w temp_mainfiles excl =
     (let excludes = map (os_path_abspath w) excl in
      foldl (\<lambda>excl file. if os_path_abspath w file \<notin> set excludes then excl @ [file] else excl)
        excl temp_mainfiles)"

text \<open>
  The list objects appended to so far, by identity.  The list of a target holds what the
  store says if it has been appended to, and what the target came with otherwise.
\<close>

type_synonym lists = "nat \<Rightarrow> string list option"

definition content :: "lists \<Rightarrow> exe \<Rightarrow> string list" where
  "content store compiler =
     (case store (excludeId compiler) of None \<Rightarrow> exclude compiler | Some excl \<Rightarrow> excl)"

text \<open>The second loop: the appends go to the list objects, which targets may share.\<close>

fun add_excludes ::
  "world \<Rightarrow> string \<Rightarrow> string list \<Rightarrow> lists \<Rightarrow> exe list \<Rightarrow> (error + lists) \<times> world" where
  "add_excludes w maindir temp_mainfiles store [] = (Inr store, w)"
| "add_excludes w maindir temp_mainfiles store (compiler # rest) =
     (case os_chdir w (mainFolder compiler) of
        Inl e \<Rightarrow> (Inl e, w)
      | Inr w1 \<Rightarrow>
          (let store1 = store(excludeId compiler \<mapsto>
                                add_mainfiles w1 temp_mainfiles (content store compiler)) in
           case os_chdir w1 maindir of
             Inl e \<Rightarrow> (Inl e, w1)
           | Inr w2 \<Rightarrow> add_excludes w2 maindir temp_mainfiles store1 rest))"

text \<open>
  \<open>MultiCompiler.__init__(compiler, *compilers, appname=appname)\<close>: the targets are
  \<open>compilers\<close> followed by \<open>compiler\<close>.  The targets it keeps are the objects it was given,
  each with the list its \<open>exclude\<close> refers to as the second loop left it.
\<close>

definition MultiCompiler_init ::
  "world \<Rightarrow> exe \<Rightarrow> exe list \<Rightarrow> string \<Rightarrow> (error + multi) \<times> world" where
  "MultiCompiler_init w compiler others appname =
     (let targets = others @ [compiler] in
      case check_targets targets [Some appname] [] [] of
        Inl e \<Rightarrow> (Inl e, w)
      | Inr (temp_mainfiles, binfolders) \<Rightarrow>
          (case add_excludes w (os_getcwd w) temp_mainfiles Map.empty targets of
             (Inl e, w1) \<Rightarrow> (Inl e, w1)
           | (Inr store, w1) \<Rightarrow>
               (Inr \<lparr> m_appName = appname, binFolders = binfolders,
                      compilers = map (\<lambda>c. c\<lparr>exclude := content store c\<rparr>) targets \<rparr>, w1)))"

section \<open>Concrete worlds and collaborators\<close>

text \<open>
  Collaborators that leave the world alone: the checker and the backend return, a source
  compiles unless it is the text \<open>def (\<close>, and the command is split at its blanks.
\<close>

fun split_blank :: "string \<Rightarrow> string list" where
  "split_blank [] = [[]]"
| "split_blank (c # cs) =
     (if c = CHR '' '' then [] # split_blank cs
      else (case split_blank cs of [] \<Rightarrow> [[c]] | x # xs \<Rightarrow> (c # x) # xs))"

definition quiet_ext :: externals where
  "quiet_ext =
     \<lparr> mypy_run = (\<lambda>path w. (None, w)),
       source_to_code = (\<lambda>source optimize. if source = ''def ('' then None else Some (''code:'' @ source)),
       cache_from_source = (\<lambda>file. fst (os_path_split file) @ ''/__pycache__/''
                                      @ fst (os_path_splitext (snd (os_path_split file))) @ ''.pyc''),
       zipapp_bytes = (\<lambda>source main compressed. Inr (''archive:'' @ main)),
       shlex_split = (\<lambda>command. Inr (filter (\<lambda>a. a \<noteq> []) (split_blank command))),
       pyi_run = (\<lambda>argv w. (None, w)) \<rparr>"

text \<open>
  A world whose root holds the project \<open>proj\<close> (a main module, a module \<open>secret.py\<close>, a data
  file and a package \<open>pkg\<close> with a nested \<open>bin\<close> directory) and an empty \<open>bin/pyc\<close>; the
  working directory is the root.
\<close>

definition proj_tree :: node where
  "proj_tree =
     Dir [(''main.py'', File ''print(1)''),
          (''secret.py'', File ''KEY = 1''),
          (''data.txt'', File ''abc''),
          (''pkg'', Dir [(''bin'', Dir [(''tool.txt'', File ''t'')])])]"

definition world0 :: world where
  "world0 =
     \<lparr> root = Dir [(''proj'', proj_tree), (''bin'', Dir [(''pyc'', Dir [])])],
       cwd = [], stderr = [] \<rparr>"

text \<open>
  The same project with a module that does not compile, listed before one that does.
\<close>

definition world_bad :: world where
  "world_bad =
     \<lparr> root = Dir [(''proj'', Dir [(''a_bad.py'', File ''def (''), (''b_good.py'', File ''x = 1'')]),
                   (''bin'', Dir [(''pyc'', Dir [])])],
       cwd = [], stderr = [] \<rparr>"


text \<open>A world with two empty main folders.\<close>

definition world_pp :: world where
  "world_pp = \<lparr> root = Dir [(''p1'', Dir []), (''p2'', Dir [])], cwd = [], stderr = [] \<rparr>"

text \<open>Collaborators whose backend raises.\<close>

definition failing_ext :: externals where
  "failing_ext = quiet_ext\<lparr>pyi_run := (\<lambda>argv w. (Some (BackendError ''build failed''), w))\<rparr>"

section \<open>What the file index may hold\<close>

text \<open>
  A file below the main folder is named by the list of names that lead to it.
  \<open>entry_of self ns\<close> is the entry \<open>reindex\<close> appends for the file at \<open>ns\<close>: its path and the
  directory it is exported to.
\<close>

definition entry_of :: "exe \<Rightarrow> string list \<Rightarrow> string \<times> string" where
  "entry_of self ns =
     (join_path (mainFolder self) (join_sep ns),
      if butlast ns = [] then ''.'' else join_sep (butlast ns))"

text \<open>
  The places the index admits: the names are plain; neither the place nor a directory above
  it, written from the main folder with its names joined by \<open>/\<close>, is an entry of \<open>exclude\<close>;
  the first name is not \<open>bin\<close>, \<open>obj\<close> or \<open>__pycache__\<close>; no name is \<open>__pycache__\<close>; and the place
  is not the main file.
\<close>

definition admissible :: "exe \<Rightarrow> string list \<Rightarrow> bool" where
  "admissible self ns =
     (ns \<noteq> [] \<and> list_all plain_name ns
      \<and> list_all (\<lambda>ps. join_sep ps \<notin> set (exclude self)) (filter (\<lambda>ps. ps \<noteq> []) (prefixes ns))
      \<and> hd ns \<notin> set [''bin'', ''obj'', ''__pycache__'']
      \<and> ''__pycache__'' \<notin> set ns
      \<and> join_sep ns \<noteq> mainFile self)"

text \<open>The object after the files at \<open>nss\<close> have been appended to its index.\<close>

definition indexed :: "exe \<Rightarrow> string list list \<Rightarrow> exe" where
  "indexed self nss = self\<lparr>allFiles := allFiles self @ map (entry_of self) nss\<rparr>"

section \<open>Properties of the command line\<close>

lemma foldl_append_fragments:
  "foldl (\<lambda>args arg. args @ '' '' @ arg) a xs = a @ concat (map (\<lambda>arg. '' '' @ arg) xs)"
  by (induction xs arbitrary: a) simp_all

lemma parse_arg_list_Cons2:
  "parse_arg_list (a # b # rest) = Inr (a @ concat (map (\<lambda>arg. '' '' @ arg) (a # b # rest)))"
  using foldl_append_fragments [of a "a # b # rest"] by (simp add: parse_arg_list_def)

lemma get_args_shape: "\<exists>mid. get_args c = ''-y'' # mid @ ['' '' @ quoted (join_path (mainFolder c) (mainFile c))]"
  by (simp add: get_args_def)

lemma get_command_get_args:
  "get_command (get_args c) =
     Inr (''pyinstaller -y'' @ concat (map (\<lambda>arg. '' '' @ arg) (get_args c)))"
proof -
  obtain mid where g: "get_args c = ''-y'' # mid @ ['' '' @ quoted (join_path (mainFolder c) (mainFile c))]"
    using get_args_shape by blast
  obtain b rest where m: "mid @ ['' '' @ quoted (join_path (mainFolder c) (mainFile c))] = b # rest"
    by (cases mid) auto
  have "parse_arg_list (get_args c) = Inr (''-y'' @ concat (map (\<lambda>arg. '' '' @ arg) (get_args c)))"
    unfolding g m by (rule parse_arg_list_Cons2)
  then show ?thesis by (simp add: get_command_def)
qed

text \<open>
  C5.  At the default configuration the argument list is \<open>-y\<close>, \<open>--log-level INFO\<close> and
  the main file; the command string built from it
  holds the first fragment \<open>-y\<close> twice: once as the initial value of the accumulator and
  once more from the loop, which starts at index 0 again.
\<close>

theorem get_command_default_repeats_first:
  "get_args default_exe = [''-y'', ''--log-level INFO'', '' '' @ quoted ''proj/main.py'']
   \<and> get_command (get_args default_exe)
       = Inr (''pyinstaller -y -y --log-level INFO  '' @ quoted ''proj/main.py'')"
  by (simp add: get_args_def default_exe_def flag_def opt_quoted_def truthy_def elements_def
      upper_def upper_char_def get_command_def parse_arg_list_def join_path_def os_path_join_def
      replace_backslash_def backslash_def quoted_def)

section \<open>Construction of a QCompilerEXE\<close>

text \<open>
  C2 (as amended).  Constructing a \<open>QCompilerEXE\<close> never yields an object: when
  \<open>os.listdir(main_folder)\<close> raises, that exception leaves the constructor; otherwise
  \<open>check()\<close> raises \<open>AttributeError\<close> for \<open>check_project\<close>.  The world is left as it was.
\<close>

theorem QCompilerEXE_init_raises:
  "QCompilerEXE_init ext w args hidden_imports =
     (Inl (case os_listdir w (mainFolder args) of
             Inl e \<Rightarrow> e
           | Inr names \<Rightarrow> AttributeError ''check_project''), w)"
  by (simp add: QCompilerEXE_init_def check_def has_attr_def exe_assigned_def Let_def
      split: sum.splits)

text \<open>
  C2 as stated fails: with a main folder that does not exist the constructor raises
  \<open>FileNotFoundError\<close>, not \<open>AttributeError\<close>.
\<close>

theorem QCompilerEXE_init_missing_folder:
  "QCompilerEXE_init quiet_ext world0 (default_exe\<lparr>mainFolder := ''nowhere''\<rparr>) None
     = (Inl FileNotFoundError, world0)"
  by (simp add: QCompilerEXE_init_def default_exe_def world0_def os_listdir_def node_at_def
      resolve_def)

section \<open>The build of a QCompilerEXE\<close>

text \<open>
  C8 (as amended).  When the backend raises, the relocation does not run: the file tree
  after \<open>compile(command)\<close> is the one the backend left.  When the backend returns,
  \<open>compile(command)\<close> ends with \<open>move_project\<close> from the distribution path to the absolute
  output directory.
\<close>

theorem compile_exe_relocation:
  "(shlex_split ext command = Inr argv \<and> pyi_run ext (argv @ extra_args self) w = (Some e, w1)
      \<longrightarrow> root (snd (compile_exe ext self w command)) = root w1)
   \<and> (shlex_split ext command = Inr argv \<and> pyi_run ext (argv @ extra_args self) w = (None, w1)
      \<longrightarrow> compile_exe ext self w command
          = move_project
              (w1\<lparr>stderr := stderr w1 @ [''An error occurred, traceback follows:'',
                                          ''NoneType: None'']\<rparr>)
              (dist_path self) (os_path_abspath w1 (output_dir self)))"
  by (simp add: compile_exe_def Let_def os_path_abspath_def os_getcwd_def)

theorem compile_exe_relocation_witness:
  "root (snd (compile_exe failing_ext default_exe world0 ''pyinstaller -y'')) = root world0
   \<and> compile_exe quiet_ext default_exe world0 ''pyinstaller -y''
       = move_project
           (world0\<lparr>stderr := stderr world0 @ [''An error occurred, traceback follows:'',
                                              ''NoneType: None'']\<rparr>)
           (dist_path default_exe) (os_path_abspath world0 (output_dir default_exe))"
proof -
  have s: "shlex_split failing_ext ''pyinstaller -y'' = Inr [''pyinstaller'', ''-y'']"
    "shlex_split quiet_ext ''pyinstaller -y'' = Inr [''pyinstaller'', ''-y'']"
    by (simp_all add: failing_ext_def quiet_ext_def)
  have f: "pyi_run failing_ext ([''pyinstaller'', ''-y''] @ extra_args default_exe) world0
             = (Some (BackendError ''build failed''), world0)"
    by (simp add: failing_ext_def quiet_ext_def)
  have q: "pyi_run quiet_ext ([''pyinstaller'', ''-y''] @ extra_args default_exe) world0
             = (None, world0)"
    by (simp add: quiet_ext_def)
  show ?thesis
    using compile_exe_relocation [of failing_ext "''pyinstaller -y''" "[''pyinstaller'', ''-y'']"
        default_exe world0 "BackendError ''build failed''" world0]
      compile_exe_relocation [of quiet_ext "''pyinstaller -y''" "[''pyinstaller'', ''-y'']"
        default_exe world0 "BackendError ''build failed''" world0]
      s f q
    by simp
qed

text \<open>
  C8 as stated fails: when the backend raises, the exception leaves \<open>compile(command)\<close>,
  nothing is written to \<open>sys.stderr\<close>, and the world is unchanged: no relocation was
  attempted.
\<close>

theorem compile_exe_backend_raises:
  "compile_exe failing_ext default_exe world0 ''pyinstaller -y''
     = (Some (BackendError ''build failed''), world0)
   \<and> stderr world0 = []"
  by (simp add: compile_exe_def failing_ext_def quiet_ext_def world0_def)

section \<open>Construction of a MultiCompiler\<close>

text \<open>
  C9.  A target whose application name was left at its default, the empty string, in a
  merge named \<open>suite\<close>: the name of its bin folder is the empty string, not \<open>main\<close>, the stem
  of its main file \<open>main.py\<close>.  The stem is used only when the application name is \<open>None\<close>.
\<close>

theorem MultiCompiler_init_default_binfolder:
  "appName default_exe = Some []
   \<and> map_sum id binFolders (fst (MultiCompiler_init world0 default_exe [] ''suite'')) = Inr ['''']
   \<and> map_sum id binFolders
        (fst (MultiCompiler_init world0 (default_exe\<lparr>appName := None\<rparr>) [] ''suite''))
       = Inr [''main'']"
  by (simp add: MultiCompiler_init_def default_exe_def world0_def proj_tree_def
      os_chdir_def resolve_def os_getcwd_def os_path_splitext_def Let_def)

text \<open>
  C6 as stated fails: a merge of the single target \<open>default_exe\<close> adds that target's own
  main file to its exclusion list.
\<close>

theorem MultiCompiler_init_adds_own_mainfile:
  "mainFile default_exe = ''main.py''
   \<and> exclude default_exe = []
   \<and> map_sum id (map exclude \<circ> compilers)
        (fst (MultiCompiler_init world0 default_exe [] ''suite'')) = Inr [[''main.py'']]"
  by (simp add: MultiCompiler_init_def default_exe_def world0_def add_mainfiles_def proj_tree_def
      os_chdir_def resolve_def os_getcwd_def os_path_abspath_def abspath_from_def Let_def
      content_def)

section \<open>The bytecode stage\<close>

text \<open>
  C1.  A \<open>QCompilerPYC\<close> over \<open>proj\<close> that excludes \<open>secret.py\<close> and \<open>data.txt\<close>: \<open>compile()\<close>
  returns normally, and the output tree holds the compiled \<open>secret.pyc\<close> and a copy of
  \<open>data.txt\<close>.
\<close>

theorem compile_pyc_ignores_exclude:
  "p_exclude (QCompilerPYC_init world0 [''secret.py'', ''data.txt''] ''proj'' True 2 False)
     = [''secret.py'', ''data.txt'']
   \<and> compile_pyc 3 quiet_ext
         (QCompilerPYC_init world0 [''secret.py'', ''data.txt''] ''proj'' True 2 False) world0
       = (None,
          world0\<lparr>root :=
            Dir [(''proj'', proj_tree),
                 (''bin'', Dir [(''pyc'', Dir [(''proj'',
                    Dir [(''main.pyc'', File ''code:print(1)''),
                         (''secret.pyc'', File ''code:KEY = 1''),
                         (''data.txt'', File ''abc''),
                         (''pkg'', Dir [(''bin'', Dir [(''tool.txt'', File ''t'')])])])])])]\<rparr>)"
  by code_simp

text \<open>
  C4 as stated fails: \<open>a_bad.py\<close> does not compile, yet \<open>compile()\<close> returns normally; the
  file is reported on \<open>sys.stderr\<close>, no \<open>a_bad.pyc\<close> is written, and \<open>b_good.py\<close>, listed
  after it, is compiled.
\<close>

theorem compile_pyc_continues_after_bad_source:
  "compile_pyc 3 quiet_ext (QCompilerPYC_init world_bad [] ''proj'' True 2 False) world_bad
     = (None,
        world_bad\<lparr>root :=
            Dir [(''proj'', Dir [(''a_bad.py'', File ''def (''), (''b_good.py'', File ''x = 1'')]),
                 (''bin'', Dir [(''pyc'', Dir [(''proj'',
                    Dir [(''b_good.pyc'', File ''code:x = 1'')])])])],
          stderr := [''proj/a_bad.py'']\<rparr>)"
  by code_simp

section \<open>Paths and trees: lemmas\<close>

subsection \<open>Splitting and joining\<close>

lemma split_sep_nonempty [simp]: "split_sep s \<noteq> []"
  by (induction s) (auto split: list.splits)

lemma split_sep_append_sep:
  "split_sep (a @ CHR ''/'' # b) = split_sep a @ split_sep b"
  by (induction a) (auto split: list.splits)

lemma split_sep_no_sep: "CHR ''/'' \<notin> set n \<Longrightarrow> split_sep n = [n]"
  by (induction n) (auto split: list.splits)




lemma walk_prefix:
  "walk r cur cs = Inr q \<Longrightarrow> ''..'' \<notin> set cs \<Longrightarrow> prefix cur q"
proof (induction cs arbitrary: cur)
  case Nil then show ?case by simp
next
  case (Cons c cs)
  then show ?case
    by (auto split: option.splits node.splits if_splits dest: append_prefixD)
qed










subsection \<open>Looking up in a modified tree\<close>

lemma modify_Dir_is_Dir: "\<exists>es'. modify p f (Dir es) = Dir es'"
  by (cases "(p, f, Dir es)" rule: modify.cases) (auto split: option.splits)

lemma lookup_modify_above:
  "p \<noteq> [] \<Longrightarrow> lookup (modify (q @ p) f r) q = map_option (modify p f) (lookup r q)"
proof (induction q arbitrary: r)
  case Nil
  then show ?case by simp
next
  case (Cons x q)
  obtain y ys where qp: "q @ p = y # ys" using Cons.prems by (cases "q @ p") auto
  show ?case
  proof (cases r)
    case (File c)
    then show ?thesis by simp
  next
    case (Dir es)
    show ?thesis
    proof (cases "map_of es x")
      case None
      then show ?thesis using Dir qp by simp
    next
      case (Some c)
      have "lookup (modify (q @ p) f c) q = map_option (modify p f) (lookup c q)"
        using Cons.IH [OF Cons.prems] .
      then show ?thesis using Dir Some qp by (simp add: AList.update_conv')
    qed
  qed
qed

lemma lookup_parent_dir:
  "lookup r q = Some n \<Longrightarrow> q \<noteq> [] \<Longrightarrow> \<exists>es. lookup r (butlast q) = Some (Dir es)"
proof (induction q arbitrary: r)
  case Nil then show ?case by simp
next
  case (Cons x q)
  then show ?case
    by (cases r; cases q) (auto split: option.splits)
qed

lemma lookup_append:
  "lookup r (q @ p) = (case lookup r q of None \<Rightarrow> None | Some n \<Rightarrow> lookup n p)"
proof (induction q arbitrary: r)
  case Nil then show ?case by simp
next
  case (Cons x q)
  then show ?case by (cases r) (auto split: option.splits)
qed

lemma lookup_modify_single:
  "lookup (modify [x] f (Dir es)) (x # p) = (case f (map_of es x) of None \<Rightarrow> None | Some n \<Rightarrow> lookup n p)"
  by (auto simp: AList.update_conv' AList.delete_conv' split: option.splits)

lemma lookup_modify_at:
  assumes "lookup r q = Some (Dir es)"
  shows "lookup (modify (q @ [x]) f r) (q @ x # p)
           = (case f (map_of es x) of None \<Rightarrow> None | Some n \<Rightarrow> lookup n p)"
proof -
  have "lookup (modify (q @ [x]) f r) q = Some (modify [x] f (Dir es))"
    using lookup_modify_above [of "[x]" q f r] assms by simp
  then show ?thesis
    using lookup_append [of "modify (q @ [x]) f r" q "x # p"] lookup_modify_single [of x f es p]
    by simp
qed




lemma put_modify_below:
  "q \<noteq> [] \<Longrightarrow> p \<noteq> [] \<Longrightarrow> put_at q a (modify (q @ p) f r) = put_at q a r"
  unfolding put_at_def
proof (induction q "\<lambda>old::node option. Some a" r rule: modify.induct)
  case (1 n) then show ?case by simp
next
  case (2 x xs c) then show ?case by simp
next
  case (3 x es)
  obtain y ys where p: "p = y # ys" using 3 by (cases p) auto
  show ?case using p by (auto simp: AList.update_conv' AList.update_last split: option.splits)
next
  case (4 x y ys es)
  then show ?case by (auto simp: AList.update_conv' AList.update_last split: option.splits)
qed





subsection \<open>Resolution in a modified tree\<close>



lemma dir_kept_modify_below:
  assumes "prefix p0 q" "lookup r p0 = Some (Dir es)" "p \<noteq> []"
  shows "\<exists>es'. lookup (modify (q @ p) f r) p0 = Some (Dir es')"
proof -
  from assms(1) obtain s where q: "q = p0 @ s" by (auto simp: prefix_def)
  have "lookup (modify (p0 @ (s @ p)) f r) p0 = map_option (modify (s @ p) f) (lookup r p0)"
    using lookup_modify_above [of "s @ p" p0 f r] assms(3) by simp
  then show ?thesis using q assms(2) modify_Dir_is_Dir [of "s @ p" f es] by auto
qed


lemma lookup_remove_at:
  assumes "lookup r q = Some n0" "q \<noteq> []"
  shows "lookup (remove_at q r) (q @ p) = None"
proof -
  obtain es where pd: "lookup r (butlast q) = Some (Dir es)"
    using lookup_parent_dir [OF assms] by blast
  have "lookup (modify (butlast q @ [last q]) (\<lambda>old. None) r) (butlast q @ last q # p) = None"
    using lookup_modify_at [OF pd, of "last q" "\<lambda>old. None" p] by simp
  moreover have "butlast q @ last q # p = q @ p" using assms(2) by (metis append.assoc append_Cons append_Nil append_butlast_last_id)
  ultimately show ?thesis using assms(2) by (simp add: remove_at_def)
qed


section \<open>The directory stager\<close>




lemma walk_removed:
  assumes "walk r cur cs = Inr q" "''..'' \<notin> set cs"
    and "\<And>p es. strict_prefix p q \<Longrightarrow> lookup r p = Some (Dir es) \<Longrightarrow> \<exists>es'. lookup r' p = Some (Dir es')"
    and "lookup r' q = None"
  shows "walk r' cur cs = Inr q \<or> walk r' cur cs = Inl FileNotFoundError"
  using assms(1,2)
proof (induction cs arbitrary: cur)
  case Nil
  then show ?case by simp
next
  case (Cons c cs)
  from Cons.prems obtain es where l: "lookup r cur = Some (Dir es)"
    by (auto split: option.splits node.splits)
  have pc: "prefix cur q" using walk_prefix [OF Cons.prems] .
  show ?case
  proof (cases "cur = q")
    case True
    then show ?thesis using assms(4) by simp
  next
    case False
    then have "strict_prefix cur q" using pc by (simp add: strict_prefix_def)
    from assms(3) [OF this l] obtain es' where l': "lookup r' cur = Some (Dir es')" by blast
    show ?thesis using Cons l l' by (auto split: if_splits)
  qed
qed

lemma dir_kept_remove:
  assumes "strict_prefix p q" "lookup r p = Some (Dir es)"
  shows "\<exists>es'. lookup (remove_at q r) p = Some (Dir es')"
proof -
  have qne: "q \<noteq> []" using assms(1) by auto
  have "prefix p (butlast q)"
    using assms(1) qne by (metis prefix_snoc snoc_eq_iff_butlast strict_prefix_def)
  from dir_kept_modify_below [OF this assms(2), of "[last q]" "\<lambda>old. None"]
  show ?thesis using qne by (simp add: remove_at_def)
qed

lemma gone_after_remove:
  assumes "resolve w d = Inr q" "q \<noteq> []" "''..'' \<notin> set (split_sep d)" "lookup (root w) q = Some n0"
  shows "\<not> os_path_exists (w\<lparr>root := remove_at q (root w)\<rparr>) d"
proof -
  have dne: "d \<noteq> []" using assms(1) by (auto simp: resolve_def)
  let ?s = "if hd d = CHR ''/'' then [] else cwd w"
  let ?r' = "remove_at q (root w)"
  have g: "lookup ?r' q = None" using lookup_remove_at [OF assms(4,2), of "[]"] by simp
  have "walk (root w) ?s (split_sep d) = Inr q"
    using assms(1) dne by (simp add: resolve_def)
  then have "walk ?r' ?s (split_sep d) = Inr q \<or> walk ?r' ?s (split_sep d) = Inl FileNotFoundError"
    using assms(3) dir_kept_remove g by (rule walk_removed)
  then show ?thesis using dne g
    by (auto simp: os_path_exists_def node_at_def resolve_def split: if_splits)
qed





section \<open>The exclusion lists after a merge\<close>

lemma foldl_cond_append:
  "foldl (\<lambda>excl file. if P file then excl @ [file] else excl) ex fs = ex @ filter P fs"
  by (induction fs arbitrary: ex) simp_all

lemma add_mainfiles_eq:
  "add_mainfiles w mf excl =
     excl @ filter (\<lambda>file. abspath_from (os_getcwd w) file
                       \<notin> set (map (abspath_from (os_getcwd w)) excl)) mf"
  by (simp add: add_mainfiles_def Let_def foldl_cond_append os_path_abspath_def)

lemma check_targets_mainfiles:
  "check_targets cs names mf bf = Inr (mf', bf') \<Longrightarrow> mf' = mf @ map mainFile cs"
proof (induction cs arbitrary: names mf bf)
  case Nil
  then show ?case by simp
next
  case (Cons c cs)
  from Cons.prems have "check_targets cs (names @ [appName c]) (mf @ [mainFile c])
      (bf @ [case appName c of None \<Rightarrow> fst (os_path_splitext (mainFile c)) | Some a \<Rightarrow> a]) = Inr (mf', bf')"
    by (simp split: if_splits)
  from Cons.IH [OF this] show ?case by simp
qed

lemma split_sep_join_sep:
  "ns \<noteq> [] \<Longrightarrow> list_all valid_name ns \<Longrightarrow> split_sep (join_sep ns) = ns"
proof (induction ns rule: join_sep.induct)
  case 1
  then show ?case by simp
next
  case (2 x)
  then show ?case by (simp add: split_sep_no_sep valid_name_def)
next
  case (3 x y ys)
  then have "split_sep (x @ CHR ''/'' # join_sep (y # ys)) = split_sep x @ (y # ys)"
    by (simp add: split_sep_append_sep)
  then show ?case using 3 by (simp add: split_sep_no_sep valid_name_def)
qed

lemma walk_names:
  "walk r cur ns = Inr q \<Longrightarrow> list_all valid_name ns \<Longrightarrow> q = cur @ ns"
proof (induction ns arbitrary: cur)
  case Nil
  then show ?case by simp
next
  case (Cons n ns)
  have vs: "list_all valid_name ns" using Cons.prems(2) by simp
  have v: "n \<noteq> []" "n \<noteq> ''.''" "n \<noteq> ''..''"
    using Cons.prems(2) by (simp_all add: valid_name_def)
  from Cons.prems(1) v have "walk r (cur @ [n]) ns = Inr q"
    by (auto split: option.splits node.splits)
  from Cons.IH [OF this vs] show ?case by simp
qed

lemma resolve_getcwd:
  assumes "list_all valid_name (cwd w)" "resolve w1 (os_getcwd w) = Inr q"
  shows "q = cwd w"
proof (cases "cwd w = []")
  case True
  then show ?thesis using assms(2)
    by (auto simp: resolve_def os_getcwd_def split: option.splits node.splits if_splits)
next
  case False
  have "split_sep (os_getcwd w) = [] # cwd w"
    using split_sep_join_sep [OF False assms(1)] by (simp add: os_getcwd_def)
  then have "walk (root w1) [] ([] # cwd w) = Inr q"
    using assms(2) by (simp add: resolve_def os_getcwd_def)
  then have "walk (root w1) [] (cwd w) = Inr q"
    by (auto split: option.splits node.splits)
  from walk_names [OF this assms(1)] show ?thesis by simp
qed

lemma chdir_back:
  assumes "list_all valid_name (cwd w)" "os_chdir w p = Inr w1" "os_chdir w1 (os_getcwd w) = Inr w2"
  shows "w2 = w"
proof -
  from assms(2) obtain q1 where w1: "w1 = w\<lparr>cwd := q1\<rparr>"
    by (auto simp: os_chdir_def split: sum.splits option.splits node.splits)
  from assms(3) obtain q where q: "resolve w1 (os_getcwd w) = Inr q" and w2: "w2 = w1\<lparr>cwd := q\<rparr>"
    by (auto simp: os_chdir_def split: sum.splits option.splits node.splits)
  have "q = cwd w" using resolve_getcwd [OF assms(1) q] .
  then show ?thesis using w1 w2 by simp
qed

lemma add_excludes_store:
  assumes "list_all valid_name (cwd w)"
  shows "add_excludes w (os_getcwd w) mf store cs = (Inr store', w') \<Longrightarrow> distinct (map excludeId cs) \<Longrightarrow>
     w' = w
     \<and> (\<forall>c \<in> set cs. \<exists>w1. os_chdir w (mainFolder c) = Inr w1
            \<and> store' (excludeId c) = Some (add_mainfiles w1 mf (content store c)))
     \<and> (\<forall>i. i \<notin> excludeId ` set cs \<longrightarrow> store' i = store i)"
proof (induction cs arbitrary: store)
  case Nil
  then show ?case by simp
next
  case (Cons c cs)
  let ?new = "\<lambda>w1. store(excludeId c \<mapsto> add_mainfiles w1 mf (content store c))"
  from Cons.prems(1) obtain w1 w2 where
    c1: "os_chdir w (mainFolder c) = Inr w1" and
    c2: "os_chdir w1 (os_getcwd w) = Inr w2" and
    r: "add_excludes w2 (os_getcwd w) mf (?new w1) cs = (Inr store', w')"
    by (auto simp: Let_def split: sum.splits)
  have w2: "w2 = w" using chdir_back [OF assms c1 c2] .
  have d: "distinct (map excludeId cs)" and nc: "excludeId c \<notin> excludeId ` set cs"
    using Cons.prems(2) by auto
  note ih = Cons.IH [OF r [unfolded w2] d]
  have ih1: "w' = w" using ih by (rule conjunct1)
  have ih2: "\<forall>c' \<in> set cs. \<exists>w1'. os_chdir w (mainFolder c') = Inr w1'
            \<and> store' (excludeId c') = Some (add_mainfiles w1' mf (content (?new w1) c'))"
    using ih [THEN conjunct2] by (rule conjunct1)
  have ih3: "\<forall>i. i \<notin> excludeId ` set cs \<longrightarrow> store' i = (?new w1) i"
    using ih [THEN conjunct2] by (rule conjunct2)
  have same: "content (?new w1) c' = content store c'" if "c' \<in> set cs" for c'
  proof -
    have "excludeId c' \<noteq> excludeId c" using that nc by (metis imageI)
    then show ?thesis by (simp add: content_def)
  qed
  have "\<exists>w1. os_chdir w (mainFolder c) = Inr w1
            \<and> store' (excludeId c) = Some (add_mainfiles w1 mf (content store c))"
    using c1 ih3 nc by simp
  moreover have "\<forall>c' \<in> set cs. \<exists>w1'. os_chdir w (mainFolder c') = Inr w1'
            \<and> store' (excludeId c') = Some (add_mainfiles w1' mf (content store c'))"
    using ih2 same by simp
  moreover have "\<forall>i. i \<notin> excludeId ` set (c # cs) \<longrightarrow> store' i = store i"
    using ih3 by simp
  ultimately show ?case using ih1 by simp
qed

text \<open>
  C6 (as amended).  \<open>MultiCompiler.__init__\<close> on targets no two of which share one list of
  exclusions, in a world whose working directory is named by valid names: when it returns,
  the world is as before (the working directory is restored after every target), and every
  target's exclusion list is its former list followed by the main files of all targets, its
  own included, in the order of the targets; a main file is left out only when its absolute
  path, taken in the working directory that \<open>os.chdir\<close> to the target's main folder reaches
  from the original one, is the absolute path, taken there too, of an entry the list already
  had.
\<close>

theorem MultiCompiler_init_excludes:
  assumes "MultiCompiler_init w compiler others appname = (Inr m, w')"
    and "list_all valid_name (cwd w)"
    and "distinct (map excludeId (others @ [compiler]))"
  shows "w' = w
     \<and> list_all2
           (\<lambda>c c'. \<exists>w1. os_chdir w (mainFolder c) = Inr w1 \<and>
              c' = c\<lparr>exclude := exclude c @ filter (\<lambda>file. abspath_from (os_getcwd w1) file
                       \<notin> set (map (abspath_from (os_getcwd w1)) (exclude c)))
                         (map mainFile (others @ [compiler]))\<rparr>)
           (others @ [compiler]) (compilers m)"
proof -
  let ?ts = "others @ [compiler]"
  from assms(1) obtain mf bf store where
    ct: "check_targets ?ts [Some appname] [] [] = Inr (mf, bf)" and
    ae: "add_excludes w (os_getcwd w) mf Map.empty ?ts = (Inr store, w')" and
    m: "compilers m = map (\<lambda>c. c\<lparr>exclude := content store c\<rparr>) ?ts"
    by (auto simp: MultiCompiler_init_def Let_def split: sum.splits prod.splits)
  have mf: "mf = map mainFile ?ts"
    using check_targets_mainfiles [OF ct] by simp
  from add_excludes_store [OF assms(2) ae assms(3)] have
    w: "w' = w" and
    st: "\<forall>c \<in> set ?ts. \<exists>w1. os_chdir w (mainFolder c) = Inr w1
            \<and> store (excludeId c) = Some (add_mainfiles w1 mf (content Map.empty c))"
    by auto
  have "\<exists>w1. os_chdir w (mainFolder c) = Inr w1 \<and>
          c\<lparr>exclude := content store c\<rparr>
            = c\<lparr>exclude := exclude c @ filter (\<lambda>file. abspath_from (os_getcwd w1) file
                       \<notin> set (map (abspath_from (os_getcwd w1)) (exclude c)))
                         (map mainFile ?ts)\<rparr>"
    if "c \<in> set ?ts" for c
  proof -
    from st that obtain w1 where
      "os_chdir w (mainFolder c) = Inr w1"
      "store (excludeId c) = Some (add_mainfiles w1 mf (content Map.empty c))" by blast
    then show ?thesis
      by (auto simp: content_def add_mainfiles_eq mf intro!: exI [of _ w1])
  qed
  then have "list_all2
           (\<lambda>c c'. \<exists>w1. os_chdir w (mainFolder c) = Inr w1 \<and>
              c' = c\<lparr>exclude := exclude c @ filter (\<lambda>file. abspath_from (os_getcwd w1) file
                       \<notin> set (map (abspath_from (os_getcwd w1)) (exclude c)))
                         (map mainFile ?ts)\<rparr>)
           ?ts (map (\<lambda>c. c\<lparr>exclude := content store c\<rparr>) ?ts)"
    unfolding list_all2_map2 by (intro list_all2_same [THEN iffD2]) blast
  then show ?thesis using w m by simp
qed

theorem MultiCompiler_init_excludes_witness:
  "list_all2
     (\<lambda>c c'. \<exists>w1. os_chdir world0 (mainFolder c) = Inr w1 \<and>
        c' = c\<lparr>exclude := exclude c @ filter (\<lambda>file. abspath_from (os_getcwd w1) file
                 \<notin> set (map (abspath_from (os_getcwd w1)) (exclude c)))
                   (map mainFile
                      ([default_exe\<lparr>exclude := [''./tool.py''], appName := Some ''one''\<rparr>]
                       @ [default_exe\<lparr>mainFolder := ''proj/pkg'', mainFile := ''tool.py'',
                                      exclude := [''../main.py''], excludeId := 1,
                                      appName := Some ''two''\<rparr>]))\<rparr>)
     ([default_exe\<lparr>exclude := [''./tool.py''], appName := Some ''one''\<rparr>]
      @ [default_exe\<lparr>mainFolder := ''proj/pkg'', mainFile := ''tool.py'',
                     exclude := [''../main.py''], excludeId := 1, appName := Some ''two''\<rparr>])
     [default_exe\<lparr>exclude := [''./tool.py'', ''main.py''], appName := Some ''one''\<rparr>,
      default_exe\<lparr>mainFolder := ''proj/pkg'', mainFile := ''tool.py'',
                  exclude := [''../main.py'', ''main.py'', ''tool.py''], excludeId := 1,
                  appName := Some ''two''\<rparr>]"
proof -
  let ?c1 = "default_exe\<lparr>exclude := [''./tool.py''], appName := Some ''one''\<rparr>"
  let ?c2 = "default_exe\<lparr>mainFolder := ''proj/pkg'', mainFile := ''tool.py'',
                          exclude := [''../main.py''], excludeId := 1, appName := Some ''two''\<rparr>"
  have h: "MultiCompiler_init world0 ?c2 [?c1] ''suite''
     = (Inr \<lparr> m_appName = ''suite'', binFolders = [''one'', ''two''],
               compilers =
                 [default_exe\<lparr>exclude := [''./tool.py'', ''main.py''], appName := Some ''one''\<rparr>,
                  default_exe\<lparr>mainFolder := ''proj/pkg'', mainFile := ''tool.py'',
                              exclude := [''../main.py'', ''main.py'', ''tool.py''],
                              excludeId := 1, appName := Some ''two''\<rparr>] \<rparr>, world0)"
    by code_simp
  have v: "list_all valid_name (cwd world0)" by (simp add: world0_def)
  have d: "distinct (map excludeId ([?c1] @ [?c2]))" by (simp add: default_exe_def)
  from MultiCompiler_init_excludes [OF h v d] show ?thesis by simp
qed


text \<open>
  Two targets that share one list object, in a world with the directories \<open>/p1\<close> and \<open>/p2\<close>:
  the appends for the first target are seen by the second, and both end with the same list.
\<close>

lemma MultiCompiler_init_shared_list:
  "map_sum id (map exclude \<circ> compilers)
     (fst (MultiCompiler_init world_pp
             (default_exe\<lparr>mainFolder := ''p2'', mainFile := ''b.py'', exclude := [''/p1/a.py''],
                          appName := Some ''two''\<rparr>)
             [default_exe\<lparr>mainFolder := ''p1'', mainFile := ''a.py'', exclude := [''/p1/a.py''],
                          appName := Some ''one''\<rparr>] ''suite''))
   = Inr [[''/p1/a.py'', ''b.py'', ''a.py''], [''/p1/a.py'', ''b.py'', ''a.py'']]"
  by code_simp

section \<open>A source file that does not compile\<close>

lemma read_file_is_file:
  "read_file w p = Inr b \<Longrightarrow> os_path_isfile w p \<and> \<not> os_path_isdir w p"
  by (auto simp: read_file_def os_path_isfile_def os_path_isdir_def split: sum.splits node.splits)

text \<open>
  C4 (as amended).  In the loop of \<open>compile_directory\<close> of a \<open>QCompilerPYC\<close>, a readable \<open>.py\<close>
  file that does not compile, and whose \<open>.pyc\<close> path is not taken by a directory (which
  \<open>py_compile\<close> refuses with \<open>FileExistsError\<close> before it reads the source), raises nothing:
  it is reported on \<open>sys.stderr\<close> under its path, no file is written for it, and the loop goes
  on with the remaining entries.
\<close>

theorem compile_items_skips_bad_source:
  assumes "p_kind self = PYC"
    and "read_file w (os_path_join directory item) = Inr source"
    and "snd (os_path_splitext (os_path_join directory item)) = ''.py''"
    and "source_to_code ext source (p_optimize self) = None"
    and "os_path_exists w (fst (os_path_splitext (os_path_join to item)) @ ''.pyc'')
         \<Longrightarrow> os_path_isfile w (fst (os_path_splitext (os_path_join to item)) @ ''.pyc'')"
  shows "compile_items n ext self w directory to (item # items)
         = compile_items n ext self (w\<lparr>stderr := stderr w @ [os_path_join directory item]\<rparr>)
             directory to items"
  using assms read_file_is_file [OF assms(2)]
  by (auto simp: compile_file_def py_compile_def Let_def)

theorem compile_items_skips_bad_source_witness:
  "compile_items 2 quiet_ext (QCompilerPYC_init world_bad [] ''proj'' True 2 False) world_bad
     ''proj'' ''/bin/pyc/proj'' (''a_bad.py'' # [''b_good.py''])
   = compile_items 2 quiet_ext (QCompilerPYC_init world_bad [] ''proj'' True 2 False)
       (world_bad\<lparr>stderr := stderr world_bad @ [os_path_join ''proj'' ''a_bad.py'']\<rparr>)
       ''proj'' ''/bin/pyc/proj'' [''b_good.py'']"
proof (rule compile_items_skips_bad_source [where source = "''def (''"])
  show "p_kind (QCompilerPYC_init world_bad [] ''proj'' True 2 False) = PYC"
    by (simp add: QCompilerPYC_init_def)
  show "read_file world_bad (os_path_join ''proj'' ''a_bad.py'') = Inr ''def (''"
    by (simp add: read_file_def node_at_def resolve_def world_bad_def os_path_join_def)
  show "snd (os_path_splitext (os_path_join ''proj'' ''a_bad.py'')) = ''.py''"
    by (simp add: os_path_splitext_def os_path_join_def)
  show "source_to_code quiet_ext ''def (''
          (p_optimize (QCompilerPYC_init world_bad [] ''proj'' True 2 False)) = None"
    by (simp add: quiet_ext_def)
  show "os_path_isfile world_bad
          (fst (os_path_splitext (os_path_join ''/bin/pyc/proj'' ''a_bad.py'')) @ ''.pyc'')"
    if "os_path_exists world_bad
          (fst (os_path_splitext (os_path_join ''/bin/pyc/proj'' ''a_bad.py'')) @ ''.pyc'')"
    using that
    by (simp add: os_path_exists_def node_at_def resolve_def world_bad_def os_path_join_def
        os_path_splitext_def)
qed

section \<open>The file index\<close>

subsection \<open>Joined names\<close>







subsection \<open>Names in a plain tree\<close>



lemma indexed_fields [simp]:
  "mainFolder (indexed self nss) = mainFolder self"
  "exclude (indexed self nss) = exclude self"
  "mainFile (indexed self nss) = mainFile self"
  "allFiles (indexed self nss) = allFiles self @ map (entry_of self) nss"
  by (simp_all add: indexed_def)

lemma entry_of_indexed [simp]: "entry_of (indexed self nss) = entry_of self"
  by (rule ext) (simp add: entry_of_def)

lemma admissible_indexed [simp]: "admissible (indexed self nss) = admissible self"
  by (rule ext) (simp add: admissible_def)

lemma indexed_indexed [simp]: "indexed (indexed self a) b = indexed self (a @ b)"
  by (simp add: indexed_def entry_of_def)

lemma indexed_Nil [simp]: "indexed self [] = self"
  by (simp add: indexed_def)



subsection \<open>The index grows by admissible places only\<close>









section \<open>An inner compiler of another class\<close>

lemma clean_directory_gone:
  assumes "clean_directory n w d = (None, w')" "''..'' \<notin> set (split_sep d)"
  shows "\<not> os_path_exists w' d"
proof (cases n)
  case 0
  then show ?thesis using assms(1) by simp
next
  case (Suc m)
  from assms(1) Suc obtain w1 where r: "os_rmdir w1 d = Inr w'"
    by (auto split: sum.splits prod.splits option.splits)
  then obtain q es where q: "resolve w1 d = Inr q" "lookup (root w1) q = Some (Dir es)" "q \<noteq> []"
    and w': "w' = w1\<lparr>root := remove_at q (root w1)\<rparr>"
    by (auto simp: os_rmdir_def split: sum.splits option.splits node.splits if_splits)
  show ?thesis unfolding w' using gone_after_remove [OF q(1) q(3) assms(2) q(2)] .
qed

text \<open>
  C3 (as amended).  A \<open>QCompilerPYZ\<close> whose inner compiler is set and is neither a
  \<open>QCompilerPYC\<close> nor a \<open>QCompilerPYD\<close>: \<open>compile()\<close> never returns normally.  The type of the
  compiler is tested after the staging: when the project check returns, \<open>bin/pyz/\<close> and
  \<open>obj/pyz/\<close> have been created where missing and \<open>obj/pyz/\<close> has been cleaned, the
  incompatible-compiler error is raised in the world the staging left, in which \<open>obj/pyz/\<close>
  no longer exists.
\<close>

theorem compile_pyz_incompatible:
  assumes "z_compiler self = Some (Other t)"
  shows "fst (compile_pyz n ext self w) \<noteq> None
     \<and> (check_project ext w (z_path self) = (None, w0)
        \<and> (if \<not> os_path_exists w0 ''bin/pyz/'' then os_makedirs w0 ''bin/pyz/'' else Inr w0) = Inr w1
        \<and> (if \<not> os_path_exists w1 ''obj/pyz/'' then os_makedirs w1 ''obj/pyz/'' else Inr w1) = Inr w2
        \<and> clean_directory n w2 ''obj/pyz/'' = (None, w3)
        \<longrightarrow> compile_pyz n ext self w
              = (Some (CompilerError (''Incompatible compiler: '' @ t)), w3)
            \<and> \<not> os_path_exists w3 ''obj/pyz/'')"
proof -
  have a: "fst (compile_pyz n ext self w) \<noteq> None"
    using assms by (simp add: compile_pyz_def split: prod.splits option.splits sum.splits)
  have b: "compile_pyz n ext self w = (Some (CompilerError (''Incompatible compiler: '' @ t)), w3)
            \<and> \<not> os_path_exists w3 ''obj/pyz/''"
    if h: "check_project ext w (z_path self) = (None, w0)"
      "(if \<not> os_path_exists w0 ''bin/pyz/'' then os_makedirs w0 ''bin/pyz/'' else Inr w0) = Inr w1"
      "(if \<not> os_path_exists w1 ''obj/pyz/'' then os_makedirs w1 ''obj/pyz/'' else Inr w1) = Inr w2"
      "clean_directory n w2 ''obj/pyz/'' = (None, w3)"
  proof -
    have "\<not> os_path_exists w3 ''obj/pyz/''"
      using clean_directory_gone [OF h(4)] by simp
    moreover have "compile_pyz n ext self w
        = (Some (CompilerError (''Incompatible compiler: '' @ t)), w3)"
      using assms h by (simp add: compile_pyz_def)
    ultimately show ?thesis by simp
  qed
  from a b show ?thesis by blast
qed

theorem compile_pyz_incompatible_witness:
  "fst (compile_pyz 3 quiet_ext
          \<lparr>z_clean = True, z_path = ''proj'', z_name = ''app.pyz'', z_mainClass = ''Main'',
            z_compressed = True, z_compiler = Some (Other ''QCompilerEXE'')\<rparr> world0) \<noteq> None
   \<and> compile_pyz 3 quiet_ext
          \<lparr>z_clean = True, z_path = ''proj'', z_name = ''app.pyz'', z_mainClass = ''Main'',
            z_compressed = True, z_compiler = Some (Other ''QCompilerEXE'')\<rparr> world0
       = (Some (CompilerError (''Incompatible compiler: '' @ ''QCompilerEXE'')),
          world0\<lparr>root := Dir [(''proj'', proj_tree),
                               (''bin'', Dir [(''pyc'', Dir []), (''pyz'', Dir [])]),
                               (''obj'', Dir [])]\<rparr>)
   \<and> \<not> os_path_exists
          (world0\<lparr>root := Dir [(''proj'', proj_tree),
                               (''bin'', Dir [(''pyc'', Dir []), (''pyz'', Dir [])]),
                               (''obj'', Dir [])]\<rparr>) ''obj/pyz/''"
proof -
  let ?self = "\<lparr>z_clean = True, z_path = ''proj'', z_name = ''app.pyz'', z_mainClass = ''Main'',
            z_compressed = True, z_compiler = Some (Other ''QCompilerEXE'')\<rparr>"
  let ?w1 = "world0\<lparr>root := Dir [(''proj'', proj_tree),
                               (''bin'', Dir [(''pyc'', Dir []), (''pyz'', Dir [])])]\<rparr>"
  let ?w2 = "world0\<lparr>root := Dir [(''proj'', proj_tree),
                               (''bin'', Dir [(''pyc'', Dir []), (''pyz'', Dir [])]),
                               (''obj'', Dir [(''pyz'', Dir [])])]\<rparr>"
  let ?w3 = "world0\<lparr>root := Dir [(''proj'', proj_tree),
                               (''bin'', Dir [(''pyc'', Dir []), (''pyz'', Dir [])]),
                               (''obj'', Dir [])]\<rparr>"
  have c: "z_compiler ?self = Some (Other ''QCompilerEXE'')" by simp
  have h0: "check_project quiet_ext world0 (z_path ?self) = (None, world0)"
    by (simp add: check_project_def quiet_ext_def)
  have h1: "(if \<not> os_path_exists world0 ''bin/pyz/'' then os_makedirs world0 ''bin/pyz/''
             else Inr world0) = Inr ?w1"
    by code_simp
  have h2: "(if \<not> os_path_exists ?w1 ''obj/pyz/'' then os_makedirs ?w1 ''obj/pyz/''
             else Inr ?w1) = Inr ?w2"
    by code_simp
  have h3: "clean_directory 3 ?w2 ''obj/pyz/'' = (None, ?w3)"
    by code_simp
  show ?thesis
    using compile_pyz_incompatible [OF c, of 3 quiet_ext world0 world0 ?w1 ?w2 ?w3] h0 h1 h2 h3
    by simp
qed

text \<open>
  C3 as stated fails: in \<open>world0\<close>, which has neither \<open>bin/pyz/\<close> nor \<open>obj\<close>, the error is
  raised after \<open>bin/pyz\<close> and \<open>obj\<close> have been created.
\<close>

theorem compile_pyz_stages_before_type_test:
  "\<not> os_path_exists world0 ''bin/pyz/'' \<and> \<not> os_path_exists world0 ''obj''
   \<and> compile_pyz 3 quiet_ext
          \<lparr>z_clean = True, z_path = ''proj'', z_name = ''app.pyz'', z_mainClass = ''Main'',
            z_compressed = True, z_compiler = Some (Other ''QCompilerEXE'')\<rparr> world0
       = (Some (CompilerError ''Incompatible compiler: QCompilerEXE''),
          world0\<lparr>root := Dir [(''proj'', proj_tree),
                               (''bin'', Dir [(''pyc'', Dir []), (''pyz'', Dir [])]),
                               (''obj'', Dir [])]\<rparr>)"
  by code_simp
end
